theory Spec2Isabelle
  imports Complex_Main
begin

section \<open>Python values used by the explanation service\<close>

text \<open>
  Python \<open>str\<close> is modelled by \<^typ>\<open>string\<close>, one \<^typ>\<open>char\<close> per code point
  (code points below 256), \<open>int\<close> by \<^typ>\<open>int\<close>, and \<open>float\<close> timestamps and
  confidences by \<^typ>\<open>real\<close>: the arithmetic of the service (one subtraction, one
  addition, one division) is read as exact arithmetic.
\<close>

definition whitespace :: "char list" where
  "whitespace = [CHR 0x09, CHR 0x0A, CHR 0x0B, CHR 0x0C, CHR 0x0D,
                 CHR 0x1C, CHR 0x1D, CHR 0x1E, CHR 0x1F, CHR 0x20, CHR 0x85, CHR 0xA0]"

definition isspace :: "char \<Rightarrow> bool" where
  "isspace c = (c \<in> set whitespace)"

text \<open>\<open>s.strip()\<close>: leading and trailing whitespace removed.\<close>

definition strip :: "string \<Rightarrow> string" where
  "strip s = rev (dropWhile isspace (rev (dropWhile isspace s)))"

text \<open>
  \<open>s.lower()\<close> on the ASCII letters; other characters are left as they are (the service
  only looks for ASCII keywords in the result).
\<close>

definition lower_char :: "char \<Rightarrow> char" where
  "lower_char c =
     (case map_of (zip ''ABCDEFGHIJKLMNOPQRSTUVWXYZ'' ''abcdefghijklmnopqrstuvwxyz'') c of
        Some d \<Rightarrow> d
      | None \<Rightarrow> c)"

definition lower :: "string \<Rightarrow> string" where
  "lower s = map lower_char s"

fun startswith :: "string \<Rightarrow> string \<Rightarrow> bool" where
  "startswith s [] = True"
| "startswith [] (p # ps) = False"
| "startswith (c # s) (p # ps) = (c = p \<and> startswith s ps)"

text \<open>\<open>sub in s\<close> for strings: \<open>sub\<close> occurs in \<open>s\<close> as a contiguous substring.\<close>

fun py_in :: "string \<Rightarrow> string \<Rightarrow> bool" where
  "py_in sub [] = (sub = [])"
| "py_in sub (c # s) = (startswith (c # s) sub \<or> py_in sub s)"

text \<open>\<open>sep.join(xs)\<close>.\<close>

fun join :: "string \<Rightarrow> string list \<Rightarrow> string" where
  "join sep [] = []"
| "join sep [x] = x"
| "join sep (x # y # ys) = x @ sep @ join sep (y # ys)"

text \<open>\<open>str(n)\<close> for an integer, as an f-string renders it.\<close>

definition digit :: "nat \<Rightarrow> char" where
  "digit d = ''0123456789'' ! d"

fun str_nat :: "nat \<Rightarrow> string" where
  "str_nat n = (if n < 10 then [digit n] else str_nat (n div 10) @ [digit (n mod 10)])"

declare str_nat.simps [simp del]

definition str_int :: "int \<Rightarrow> string" where
  "str_int i = (if i < 0 then ''-'' @ str_nat (nat (- i)) else str_nat (nat i))"

text \<open>\<open>s[:k]\<close>: a negative bound counts from the end.\<close>

definition slice_to :: "int \<Rightarrow> string \<Rightarrow> string" where
  "slice_to k s = (if 0 \<le> k then take (nat k) s else take (length s - nat (- k)) s)"

subsection \<open>Exceptions\<close>

text \<open>
  Every exception carries its message (\<open>str(e)\<close>). \<open>OtherException\<close> stands for any
  other subclass of \<open>Exception\<close> (what the SDKs and pydantic raise);
  \<open>KeyboardInterrupt\<close> is the one modelled exception that is a \<open>BaseException\<close> but not
  an \<open>Exception\<close>, so that no \<open>except Exception\<close> handler catches it.
\<close>

datatype error =
    ValueError string
  | ProviderError string
  | RateLimitError string
  | ModelUnavailableError string
  | APITimeoutError string
  | TypeError string
  | OtherException string
  | KeyboardInterrupt

fun str :: "error \<Rightarrow> string" where
  "str (ValueError m) = m"
| "str (ProviderError m) = m"
| "str (RateLimitError m) = m"
| "str (ModelUnavailableError m) = m"
| "str (APITimeoutError m) = m"
| "str (TypeError m) = m"
| "str (OtherException m) = m"
| "str KeyboardInterrupt = []"

fun is_Exception :: "error \<Rightarrow> bool" where
  "is_Exception KeyboardInterrupt = False"
| "is_Exception e = True"

section \<open>Data model (\<open>src/models/models.py\<close>)\<close>

record PerformanceMetrics =
  model :: string
  model_provider :: string
  start_time :: real
  end_time :: "real option"
  time_to_first_token :: "real option"
  total_tokens :: "int option"
  error :: "string option"
  cache_hit :: bool

text \<open>
  Python truthiness of an \<open>Optional\<close> number: \<open>None\<close> and zero are both false.
\<close>

definition truthy_real :: "real option \<Rightarrow> bool" where
  "truthy_real x = (case x of None \<Rightarrow> False | Some v \<Rightarrow> v \<noteq> 0)"

definition truthy_int :: "int option \<Rightarrow> bool" where
  "truthy_int x = (case x of None \<Rightarrow> False | Some v \<Rightarrow> v \<noteq> 0)"

definition total_time :: "PerformanceMetrics \<Rightarrow> real option" where
  "total_time self =
     (if truthy_real (end_time self) then Some (the (end_time self) - start_time self)
      else None)"

definition tokens_per_second :: "PerformanceMetrics \<Rightarrow> real option" where
  "tokens_per_second self =
     (if truthy_real (end_time self) \<and> truthy_real (time_to_first_token self)
         \<and> truthy_int (total_tokens self)
      then
        (let first_token_time = start_time self + the (time_to_first_token self);
             generation_time = the (end_time self) - first_token_time
         in if generation_time > 0
            then Some (real_of_int (the (total_tokens self)) / generation_time)
            else None)
      else None)"

record ExplanationResult =
  original_code :: string
  explanation :: string
  metrics :: PerformanceMetrics
  timestamp :: real

record ValidationResult =
  is_valid :: bool
  reason :: string
  confidence :: real

section \<open>Configuration (\<open>src/config.py\<close>)\<close>

text \<open>
  The settings the orchestration core reads. The cache directory, the generation
  temperatures and token limits and the log level are handed to the libraries unchanged and
  are left out.
\<close>

record Settings =
  gemini_api_key :: string
  default_provider :: string
  gemini_model :: string
  ollama_model :: string
  cache_enabled :: bool
  cache_ttl :: int
  min_code_length :: int
  max_code_length :: int
  validation_sample_size :: int

text \<open>The defaults of the dataclass; the API key is read from the process environment.\<close>

definition default_settings :: "string \<Rightarrow> Settings" where
  "default_settings key =
     \<lparr>gemini_api_key = key, default_provider = ''gemini'',
      gemini_model = ''gemini-2.5-flash'', ollama_model = ''llama3.2:1b'',
      cache_enabled = True, cache_ttl = 604800,
      min_code_length = 10, max_code_length = 100000, validation_sample_size = 1000\<rparr>"

section \<open>The outside world\<close>

text \<open>
  What the two SDKs deliver. A stream is the finite list of what iterating it yields:
  chunks, possibly cut short by an exception raised while the next chunk is awaited (a
  network failure, or the caller's interrupt). A chunk is the SDK's typed response: every
  attribute is there, and one the backend did not report is \<open>None\<close>, which is what
  \<open>chunk.get(key, default)\<close> then returns.
\<close>

record ollama_chunk =
  content :: "string option"
  chunk_done :: bool
  prompt_eval_count :: "int option"
  eval_count :: "int option"

record gemini_chunk =
  chunk_text :: "string option"
  usage_metadata :: "int option option"

datatype 'c item = Chunk 'c | Raises error

text \<open>
  \<open>ollama_list_ok\<close>: \<open>ollama.list()\<close> returns without raising.
  \<open>ollama_chat model prompt\<close>: the non-streaming chat call, raising or returning the
  message content. \<open>model_validate_json\<close>: pydantic parsing of that content.
  \<open>gemini_generate_content model prompt\<close>: the structured call, raising or returning
  \<open>response.parsed\<close>. \<open>ollama_chat_stream\<close> and \<open>gemini_generate_content_stream\<close>: the
  streaming calls, raising at once or returning a stream.
  \<open>sha256_hexdigest\<close>: \<open>hashlib.sha256(s.encode()).hexdigest()\<close>.
  \<open>time_at n\<close>: what the \<open>n\<close>-th reading of the clock returns.
\<close>

record env =
  settings :: Settings
  ollama_list_ok :: bool
  ollama_chat :: "string \<Rightarrow> string \<Rightarrow> error + string option"
  model_validate_json :: "string \<Rightarrow> error + ValidationResult"
  gemini_generate_content :: "string \<Rightarrow> string \<Rightarrow> error + ValidationResult option"
  ollama_chat_stream :: "string \<Rightarrow> string \<Rightarrow> error + ollama_chunk item list"
  gemini_generate_content_stream :: "string \<Rightarrow> string \<Rightarrow> error + gemini_chunk item list"
  sha256_hexdigest :: "string \<Rightarrow> string"
  time_at :: "nat \<Rightarrow> real"

text \<open>
  What a call can be observed to do, in order: a \<open>generate_structured\<close> call on a provider
  (with its prompt), a streaming generation request issued to a backend (with the full
  prompt), the request for the next chunk of a stream, and a call of the caller's
  \<open>stream_callback\<close>.
\<close>

datatype event =
    StructuredCall string string
  | StreamOpen string string
  | Fetch string
  | SinkCall string

text \<open>
  The mutable state: the disk cache (key to value and expiry time), the number of clock
  readings so far, and the events so far.
\<close>

record state =
  cache :: "string \<rightharpoonup> (ExplanationResult \<times> real option)"
  clock :: nat
  trace :: "event list"

definition time_time :: "env \<Rightarrow> state \<Rightarrow> real \<times> state" where
  "time_time w st = (time_at w (clock st), st\<lparr>clock := Suc (clock st)\<rparr>)"

definition emit :: "event \<Rightarrow> state \<Rightarrow> state" where
  "emit ev st = st\<lparr>trace := trace st @ [ev]\<rparr>"

subsection \<open>The disk cache\<close>

text \<open>
  The \<open>diskcache\<close> library, as the service uses it: \<open>get\<close> answers absent for a key never
  written or whose expiry time has been reached, \<open>set\<close> stores the value with expiry time
  now plus \<open>expire\<close> seconds, overwriting. Both read the clock. A value read back is a copy:
  changing it does not change the cache.
\<close>

definition cache_get :: "env \<Rightarrow> state \<Rightarrow> string \<Rightarrow> ExplanationResult option \<times> state" where
  "cache_get w st key =
     (case time_time w st of (now, st1) \<Rightarrow>
        (case cache st1 key of
           None \<Rightarrow> (None, st1)
         | Some (v, expire_time) \<Rightarrow>
             (case expire_time of
                None \<Rightarrow> (Some v, st1)
              | Some t \<Rightarrow> if now < t then (Some v, st1) else (None, st1))))"

definition cache_set :: "env \<Rightarrow> state \<Rightarrow> string \<Rightarrow> ExplanationResult \<Rightarrow> int \<Rightarrow> state" where
  "cache_set w st key v expire =
     (case time_time w st of (now, st1) \<Rightarrow>
        st1\<lparr>cache := (cache st1)(key \<mapsto> (v, Some (now + real_of_int expire)))\<rparr>)"

section \<open>Prompts (\<open>src/prompts/prompts.py\<close>)\<close>

definition newline :: string where
  "newline = [CHR 0x0A]"

definition CODE_EXPLANATION_PROMPT :: string where
  "CODE_EXPLANATION_PROMPT =
     ''You are an expert programmer and technical educator. ''
     @ ''Analyze the following piece of code and provide a clear, comprehensive explanation. ''
     @ ''Focus on:'' @ newline
     @ ''1. Overall purpose and functionality'' @ newline
     @ ''2. Complex sections, algorithms, or patterns used'' @ newline
     @ ''3. Key logic flow and important details'' @ newline
     @ ''4. Potential edge cases or gotchas'' @ newline
     @ ''5. Performance considerations if relevant'' @ newline @ newline
     @ ''Structure your explanation to be clear and easy to understand. ''
     @ ''Use markdown formatting for readability.''"

definition get_explanation_prompt :: string where
  "get_explanation_prompt = CODE_EXPLANATION_PROMPT"

definition get_validation_prompt :: "string \<Rightarrow> string" where
  "get_validation_prompt code_sample =
     ''Validate if this is actual programming code.'' @ newline @ newline
     @ ''Code to validate:'' @ newline
     @ [CHR 0x60, CHR 0x60, CHR 0x60] @ newline
     @ code_sample @ newline
     @ [CHR 0x60, CHR 0x60, CHR 0x60] @ newline @ newline
     @ ''Be lenient. '' @ newline
     @ ''Provide your assessment with a confidence score.''"

section \<open>Providers (\<open>src/providers\<close>)\<close>

text \<open>
  The attributes of a provider object. \<open>is_available_cache\<close> is the memo of
  \<open>OllamaProvider\<close> only. The Gemini client exists exactly when the API key is non-empty.
\<close>

record BaseProvider =
  api_key :: "string option"
  provider_model :: string
  is_available_cache :: "bool option"

datatype provider = GeminiProvider BaseProvider | OllamaProvider BaseProvider

text \<open>\<open>x or d\<close> for an optional string: \<open>None\<close> and the empty string are both false.\<close>

definition py_or :: "string option \<Rightarrow> string \<Rightarrow> string" where
  "py_or x d = (case x of None \<Rightarrow> d | Some s \<Rightarrow> if s = [] then d else s)"

definition GeminiProvider_init :: "Settings \<Rightarrow> string option \<Rightarrow> provider" where
  "GeminiProvider_init s m =
     GeminiProvider \<lparr>api_key = Some (gemini_api_key s),
                     provider_model = py_or m (gemini_model s),
                     is_available_cache = None\<rparr>"

definition OllamaProvider_init :: "Settings \<Rightarrow> string option \<Rightarrow> provider" where
  "OllamaProvider_init s m =
     OllamaProvider \<lparr>api_key = Some ''local'',
                     provider_model = py_or m (ollama_model s),
                     is_available_cache = None\<rparr>"

fun name :: "provider \<Rightarrow> string" where
  "name (GeminiProvider p) = ''gemini''"
| "name (OllamaProvider p) = ''ollama''"

fun attrs :: "provider \<Rightarrow> BaseProvider" where
  "attrs (GeminiProvider p) = p"
| "attrs (OllamaProvider p) = p"

definition model_of :: "provider \<Rightarrow> string" where
  "model_of p = provider_model (attrs p)"

definition truthy_str :: "string option \<Rightarrow> bool" where
  "truthy_str x = (case x of None \<Rightarrow> False | Some s \<Rightarrow> s \<noteq> [])"

text \<open>
  \<open>is_available\<close>. \<open>BaseProvider\<close>: the API key is present and non-empty.
  \<open>OllamaProvider\<close>: the memoised answer, else whether \<open>ollama.list()\<close> succeeds. The
  source then stores that answer in the memo, so every later call on the same object
  returns the same value; the model reads the value and leaves the memo write out.
\<close>

fun is_available :: "env \<Rightarrow> provider \<Rightarrow> bool" where
  "is_available w (GeminiProvider p) = truthy_str (api_key p)"
| "is_available w (OllamaProvider p) =
     (case is_available_cache p of Some b \<Rightarrow> b | None \<Rightarrow> ollama_list_ok w)"

subsection \<open>Structured generation\<close>

text \<open>The body of the \<open>try\<close> block of \<open>generate_structured\<close>.\<close>

fun structured_body :: "env \<Rightarrow> provider \<Rightarrow> string \<Rightarrow> error + ValidationResult" where
  "structured_body w (OllamaProvider p) prompt =
     (case ollama_chat w (provider_model p) prompt of
        Inl e \<Rightarrow> Inl e
      | Inr c \<Rightarrow>
          if \<not> truthy_str c
          then Inl (ProviderError ''Ollama returned empty structured response'')
          else model_validate_json w (the c))"
| "structured_body w (GeminiProvider p) prompt =
     (if \<not> truthy_str (api_key p) then Inl (ProviderError ''Gemini client not initialized'')
      else
        (case gemini_generate_content w (provider_model p) prompt of
           Inl e \<Rightarrow> Inl e
         | Inr None \<Rightarrow> Inl (ProviderError ''Gemini returned empty structured response'')
         | Inr (Some v) \<Rightarrow> Inr v))"

fun structured_prefix :: "provider \<Rightarrow> string" where
  "structured_prefix (OllamaProvider p) = ''Ollama structured generation error: ''"
| "structured_prefix (GeminiProvider p) = ''Gemini structured generation error: ''"

text \<open>What \<open>generate_structured\<close> returns or raises: every \<open>Exception\<close> is wrapped.\<close>

definition structured_result :: "env \<Rightarrow> provider \<Rightarrow> string \<Rightarrow> error + ValidationResult" where
  "structured_result w p prompt =
     (case structured_body w p prompt of
        Inr v \<Rightarrow> Inr v
      | Inl e \<Rightarrow>
          if is_Exception e then Inl (ProviderError (structured_prefix p @ str e))
          else Inl e)"

definition generate_structured ::
  "env \<Rightarrow> state \<Rightarrow> provider \<Rightarrow> string \<Rightarrow> (error + ValidationResult) \<times> state" where
  "generate_structured w st p prompt =
     (structured_result w p prompt, emit (StructuredCall (name p) prompt) st)"

subsection \<open>Streamed generation\<close>

text \<open>
  \<open>prompt_tokens + completion_tokens\<close> on the two counts of the final chunk: the sum, or
  the \<open>TypeError\<close> of Python when a count is \<open>None\<close>.
\<close>

definition type_name :: "int option \<Rightarrow> string" where
  "type_name x = (case x of None \<Rightarrow> ''NoneType'' | Some v \<Rightarrow> ''int'')"

definition add_counts :: "int option \<Rightarrow> int option \<Rightarrow> error + int" where
  "add_counts a b =
     (case (a, b) of
        (Some x, Some y) \<Rightarrow> Inr (x + y)
      | _ \<Rightarrow>
          Inl (TypeError (''unsupported operand type(s) for +: '' @ [CHR 0x27] @ type_name a
                          @ [CHR 0x27] @ '' and '' @ [CHR 0x27] @ type_name b @ [CHR 0x27])))"

definition full_prompt :: "string \<Rightarrow> string \<Rightarrow> string" where
  "full_prompt prompt code =
     prompt @ newline @ newline @ ''Code to explain:'' @ newline @ newline @ code"

text \<open>
  One pass of the body of \<open>for chunk in stream\<close> of \<open>OllamaProvider._invoke_model\<close>, on
  the loop's variables: the time of the first token, the text so far, the metrics and the
  state. \<open>stream_callback\<close> is modelled by whether one was supplied; calling it is the event
  \<open>SinkCall\<close>, and it returns without raising. The first component of the result is the
  exception the pass raises, if any: the sum of the token counts of the final chunk comes
  last, after the text has been handed on.
\<close>

definition ollama_step ::
  "env \<Rightarrow> bool \<Rightarrow> ollama_chunk \<Rightarrow> real option \<times> string \<times> PerformanceMetrics \<times> state
     \<Rightarrow> error option \<times> real option \<times> string \<times> PerformanceMetrics \<times> state" where
  "ollama_step w stream_callback chunk v =
     (case v of (first_token_time, expl, m, st) \<Rightarrow>
        (case (if first_token_time = None \<and> truthy_str (content chunk)
               then (case time_time w st of (t, st') \<Rightarrow>
                       (Some t, m\<lparr>time_to_first_token := Some (t - start_time m)\<rparr>, st'))
               else (first_token_time, m, st)) of
           (first_token_time1, m1, st1) \<Rightarrow>
             (case (if truthy_str (content chunk)
                    then (expl @ the (content chunk),
                          if stream_callback then emit (SinkCall (the (content chunk))) st1
                          else st1)
                    else (expl, st1)) of
                (expl1, st2) \<Rightarrow>
                  (if chunk_done chunk
                   then
                     (case add_counts (prompt_eval_count chunk) (eval_count chunk) of
                        Inl e \<Rightarrow> (Some e, first_token_time1, expl1, m1, st2)
                      | Inr n_tokens \<Rightarrow>
                          (None, first_token_time1, expl1,
                           m1\<lparr>total_tokens := Some n_tokens\<rparr>, st2))
                   else (None, first_token_time1, expl1, m1, st2)))))"

text \<open>
  The loop: every pass first asks the stream for its next item (\<open>Fetch\<close>); the stream
  answers with a chunk, raises, or is exhausted. An exception raised by a pass ends the
  loop as well.
\<close>

fun ollama_loop ::
  "env \<Rightarrow> bool \<Rightarrow> ollama_chunk item list \<Rightarrow> real option \<times> string \<times> PerformanceMetrics \<times> state
     \<Rightarrow> (error + string) \<times> PerformanceMetrics \<times> state" where
  "ollama_loop w cb [] (ftt, expl, m, st) =
     (Inr expl, m, emit (Fetch ''ollama'') st)"
| "ollama_loop w cb (Raises e # rest) (ftt, expl, m, st) =
     (Inl e, m, emit (Fetch ''ollama'') st)"
| "ollama_loop w cb (Chunk c # rest) (ftt, expl, m, st) =
     (case ollama_step w cb c (ftt, expl, m, emit (Fetch ''ollama'') st) of
        (Some e, ftt1, expl1, m1, st1) \<Rightarrow> (Inl e, m1, st1)
      | (None, v1) \<Rightarrow> ollama_loop w cb rest v1)"

text \<open>The body of the \<open>try\<close> block of \<open>OllamaProvider._invoke_model\<close>.\<close>

definition ollama_try ::
  "env \<Rightarrow> state \<Rightarrow> BaseProvider \<Rightarrow> string \<Rightarrow> string \<Rightarrow> PerformanceMetrics \<Rightarrow> bool
     \<Rightarrow> (error + string) \<times> PerformanceMetrics \<times> state" where
  "ollama_try w st p prompt code m stream_callback =
     (case ollama_chat_stream w (provider_model p) (full_prompt prompt code) of
        Inl e \<Rightarrow> (Inl e, m, emit (StreamOpen ''ollama'' (full_prompt prompt code)) st)
      | Inr stream \<Rightarrow>
          (case ollama_loop w stream_callback stream
                  (None, [], m, emit (StreamOpen ''ollama'' (full_prompt prompt code)) st) of
             (Inl e, m1, st1) \<Rightarrow> (Inl e, m1, st1)
           | (Inr expl, m1, st1) \<Rightarrow>
               if expl = []
               then (Inl (ProviderError ''Ollama returned empty response''), m1, st1)
               else (Inr expl, m1, st1)))"

text \<open>The \<open>except Exception\<close> handler: the error is classified by its lower-cased text.\<close>

definition ollama_classify :: "BaseProvider \<Rightarrow> error \<Rightarrow> error" where
  "ollama_classify p e =
     (let error_msg = lower (str e) in
      if py_in ''connection'' error_msg \<or> py_in ''refused'' error_msg
         \<or> py_in ''unreachable'' error_msg
      then ProviderError ''Cannot connect to Ollama server. Is it running? Try: ollama serve''
      else if py_in ''model'' error_msg
              \<and> (py_in ''not found'' error_msg \<or> py_in ''pull'' error_msg)
      then ModelUnavailableError
             (''Ollama model '' @ [CHR 0x27] @ provider_model p @ [CHR 0x27]
              @ '' not found. Try: ollama pull '' @ provider_model p)
      else if py_in ''timeout'' error_msg \<or> py_in ''timed out'' error_msg
      then APITimeoutError (''Ollama request timed out: '' @ str e)
      else ProviderError (''Ollama error: '' @ str e))"

definition ollama_invoke_model ::
  "env \<Rightarrow> state \<Rightarrow> BaseProvider \<Rightarrow> string \<Rightarrow> string \<Rightarrow> PerformanceMetrics \<Rightarrow> bool
     \<Rightarrow> (error + string) \<times> PerformanceMetrics \<times> state" where
  "ollama_invoke_model w st p prompt code m stream_callback =
     (case ollama_try w st p prompt code m stream_callback of
        (Inr expl, m1, st1) \<Rightarrow> (Inr expl, m1, st1)
      | (Inl e, m1, st1) \<Rightarrow>
          if is_Exception e then (Inl (ollama_classify p e), m1, st1)
          else (Inl e, m1, st1))"

text \<open>
  \<open>GeminiProvider._invoke_model\<close>: the same loop on \<open>chunk.text\<close>, remembering the last
  chunk, whose usage record gives the token count.
\<close>

definition gemini_step ::
  "env \<Rightarrow> bool \<Rightarrow> gemini_chunk
     \<Rightarrow> real option \<times> string \<times> gemini_chunk option \<times> PerformanceMetrics \<times> state
     \<Rightarrow> real option \<times> string \<times> gemini_chunk option \<times> PerformanceMetrics \<times> state" where
  "gemini_step w stream_callback chunk v =
     (case v of (first_token_time, expl, final_chunk, m, st) \<Rightarrow>
        (case (if first_token_time = None \<and> truthy_str (chunk_text chunk)
               then (case time_time w st of (t, st') \<Rightarrow>
                       (Some t, m\<lparr>time_to_first_token := Some (t - start_time m)\<rparr>, st'))
               else (first_token_time, m, st)) of
           (first_token_time1, m1, st1) \<Rightarrow>
             (case (if truthy_str (chunk_text chunk)
                    then (expl @ the (chunk_text chunk),
                          if stream_callback then emit (SinkCall (the (chunk_text chunk))) st1
                          else st1)
                    else (expl, st1)) of
                (expl1, st2) \<Rightarrow>
                  (first_token_time1, expl1, Some chunk, m1, st2))))"

fun gemini_loop ::
  "env \<Rightarrow> bool \<Rightarrow> gemini_chunk item list
     \<Rightarrow> real option \<times> string \<times> gemini_chunk option \<times> PerformanceMetrics \<times> state
     \<Rightarrow> (error + string \<times> gemini_chunk option) \<times> PerformanceMetrics \<times> state" where
  "gemini_loop w cb [] (ftt, expl, final_chunk, m, st) =
     (Inr (expl, final_chunk), m, emit (Fetch ''gemini'') st)"
| "gemini_loop w cb (Raises e # rest) (ftt, expl, final_chunk, m, st) =
     (Inl e, m, emit (Fetch ''gemini'') st)"
| "gemini_loop w cb (Chunk c # rest) (ftt, expl, final_chunk, m, st) =
     gemini_loop w cb rest
       (gemini_step w cb c (ftt, expl, final_chunk, m, emit (Fetch ''gemini'') st))"

definition gemini_usage :: "gemini_chunk option \<Rightarrow> PerformanceMetrics \<Rightarrow> PerformanceMetrics" where
  "gemini_usage final_chunk m =
     (case final_chunk of
        None \<Rightarrow> m
      | Some c \<Rightarrow>
          (case usage_metadata c of
             None \<Rightarrow> m
           | Some total_token_count \<Rightarrow> m\<lparr>total_tokens := total_token_count\<rparr>))"

definition gemini_try ::
  "env \<Rightarrow> state \<Rightarrow> BaseProvider \<Rightarrow> string \<Rightarrow> string \<Rightarrow> PerformanceMetrics \<Rightarrow> bool
     \<Rightarrow> (error + string) \<times> PerformanceMetrics \<times> state" where
  "gemini_try w st p prompt code m stream_callback =
     (if \<not> truthy_str (api_key p)
      then (Inl (ProviderError ''Gemini client not initialized''), m, st)
      else
        (case gemini_generate_content_stream w (provider_model p) (full_prompt prompt code) of
           Inl e \<Rightarrow> (Inl e, m, emit (StreamOpen ''gemini'' (full_prompt prompt code)) st)
         | Inr response \<Rightarrow>
             (case gemini_loop w stream_callback response
                     (None, [], None, m,
                      emit (StreamOpen ''gemini'' (full_prompt prompt code)) st) of
                (Inl e, m1, st1) \<Rightarrow> (Inl e, m1, st1)
              | (Inr (expl, final_chunk), m1, st1) \<Rightarrow>
                  if expl = []
                  then (Inl (ProviderError ''Gemini returned empty response''),
                        gemini_usage final_chunk m1, st1)
                  else (Inr expl, gemini_usage final_chunk m1, st1))))"

definition gemini_classify :: "BaseProvider \<Rightarrow> error \<Rightarrow> error" where
  "gemini_classify p e =
     (let error_msg = lower (str e) in
      if py_in ''quota'' error_msg \<or> py_in ''rate limit'' error_msg \<or> py_in ''429'' error_msg
      then RateLimitError (''Gemini rate limit exceeded: '' @ str e)
      else if py_in ''timeout'' error_msg \<or> py_in ''timed out'' error_msg
      then APITimeoutError (''Gemini API timeout: '' @ str e)
      else if py_in ''not found'' error_msg \<or> py_in ''invalid model'' error_msg
              \<or> py_in ''404'' error_msg
      then ModelUnavailableError
             (''Gemini model '' @ [CHR 0x27] @ provider_model p @ [CHR 0x27]
              @ '' not available: '' @ str e)
      else if py_in ''unauthorized'' error_msg \<or> py_in ''invalid api key'' error_msg
              \<or> py_in ''401'' error_msg \<or> py_in ''403'' error_msg
      then ProviderError
             (''Gemini authentication failed. Check your GEMINI_API_KEY: '' @ str e)
      else ProviderError (''Gemini API error: '' @ str e))"

definition gemini_invoke_model ::
  "env \<Rightarrow> state \<Rightarrow> BaseProvider \<Rightarrow> string \<Rightarrow> string \<Rightarrow> PerformanceMetrics \<Rightarrow> bool
     \<Rightarrow> (error + string) \<times> PerformanceMetrics \<times> state" where
  "gemini_invoke_model w st p prompt code m stream_callback =
     (case gemini_try w st p prompt code m stream_callback of
        (Inr expl, m1, st1) \<Rightarrow> (Inr expl, m1, st1)
      | (Inl e, m1, st1) \<Rightarrow>
          if is_Exception e then (Inl (gemini_classify p e), m1, st1)
          else (Inl e, m1, st1))"

fun invoke_model ::
  "env \<Rightarrow> state \<Rightarrow> provider \<Rightarrow> string \<Rightarrow> string \<Rightarrow> PerformanceMetrics \<Rightarrow> bool
     \<Rightarrow> (error + string) \<times> PerformanceMetrics \<times> state" where
  "invoke_model w st (OllamaProvider p) prompt code m cb =
     ollama_invoke_model w st p prompt code m cb"
| "invoke_model w st (GeminiProvider p) prompt code m cb =
     gemini_invoke_model w st p prompt code m cb"

text \<open>\<open>BaseProvider.explain_code\<close>. The metrics object is shared with the caller.\<close>

definition explain_code ::
  "env \<Rightarrow> state \<Rightarrow> provider \<Rightarrow> string \<Rightarrow> PerformanceMetrics \<Rightarrow> bool
     \<Rightarrow> (error + string) \<times> PerformanceMetrics \<times> state" where
  "explain_code w st p code m stream_callback =
     (case invoke_model w st p get_explanation_prompt code
             (m\<lparr>model := model_of p, model_provider := name p\<rparr>) stream_callback of
        (Inr expl, m1, st1) \<Rightarrow> (Inr (strip expl), m1, st1)
      | (Inl e, m1, st1) \<Rightarrow>
          if is_Exception e then (Inl e, m1\<lparr>error := Some (str e)\<rparr>, st1)
          else (Inl e, m1, st1))"

section \<open>The explainer (\<open>src/core/explainer.py\<close>)\<close>

text \<open>
  The attributes of a \<open>CodeExplainer\<close>. Its \<open>providers\<close> dictionary has the two keys
  \<open>gemini\<close> and \<open>ollama\<close>, in this order, fixed by the constructor; the record holds the two
  provider objects and \<open>providers\<close> is the lookup. The cache content lives in the state.
\<close>

record CodeExplainer =
  default_provider :: string
  use_cache :: bool
  cache_ttl :: int
  gemini :: BaseProvider
  ollama :: BaseProvider

definition CodeExplainer_init :: "Settings \<Rightarrow> string option \<Rightarrow> CodeExplainer" where
  "CodeExplainer_init s provider =
     \<lparr>default_provider = py_or provider (Settings.default_provider s),
      use_cache = cache_enabled s,
      cache_ttl = Settings.cache_ttl s,
      gemini = attrs (GeminiProvider_init s (Some (gemini_model s))),
      ollama = attrs (OllamaProvider_init s (Some (ollama_model s)))\<rparr>"

definition providers :: "CodeExplainer \<Rightarrow> string \<rightharpoonup> provider" where
  "providers self n =
     (if n = ''gemini'' then Some (GeminiProvider (gemini self))
      else if n = ''ollama'' then Some (OllamaProvider (ollama self))
      else None)"

definition get_provider :: "CodeExplainer \<Rightarrow> env \<Rightarrow> string option \<Rightarrow> error + provider" where
  "get_provider self w provider_name =
     (case providers self (py_or provider_name (default_provider self)) of
        None \<Rightarrow>
          Inl (ValueError (''Unknown provider: '' @ py_or provider_name (default_provider self)))
      | Some p \<Rightarrow>
          if \<not> is_available w p
          then Inl (ValueError (''Provider '' @ py_or provider_name (default_provider self)
                                @ '' is not available (missing API key)''))
          else Inr p)"

definition fallback_name :: "string \<Rightarrow> string" where
  "fallback_name failed_provider = (if failed_provider = ''gemini'' then ''ollama'' else ''gemini'')"

definition get_fallback_provider :: "CodeExplainer \<Rightarrow> env \<Rightarrow> string \<Rightarrow> provider option" where
  "get_fallback_provider self w failed_provider =
     (case providers self (fallback_name failed_provider) of
        None \<Rightarrow> None
      | Some p \<Rightarrow> if is_available w p then Some p else None)"

text \<open>
  \<open>_get_cache_key\<close>, with the digest function as its first argument: the three components
  are joined by a vertical bar and hashed.
\<close>

definition cache_input :: "string \<Rightarrow> string \<Rightarrow> string \<Rightarrow> string" where
  "cache_input code provider_name mdl = code @ ''|'' @ provider_name @ ''|'' @ mdl"

definition get_cache_key :: "(string \<Rightarrow> string) \<Rightarrow> string \<Rightarrow> string \<Rightarrow> string \<Rightarrow> string" where
  "get_cache_key digest code provider_name mdl = digest (cache_input code provider_name mdl)"

subsection \<open>Input validation\<close>

definition too_short :: "Settings \<Rightarrow> ValidationResult" where
  "too_short s =
     \<lparr>is_valid = False,
      reason = ''Code is too short (minimum '' @ str_int (min_code_length s) @ '' characters)'',
      confidence = 1\<rparr>"

definition too_large :: "Settings \<Rightarrow> ValidationResult" where
  "too_large s =
     \<lparr>is_valid = False,
      reason = ''Code is too large (maximum '' @ str_int (max_code_length s div 1000) @ ''KB)'',
      confidence = 1\<rparr>"

definition skipped :: "string list \<Rightarrow> ValidationResult" where
  "skipped validation_errors =
     \<lparr>is_valid = True,
      reason = ''Validation check skipped due to errors: '' @ join ''; '' validation_errors,
      confidence = 1 / 2\<rparr>"

definition code_sample :: "Settings \<Rightarrow> string \<Rightarrow> string" where
  "code_sample s code =
     (if int (length code) > validation_sample_size s
      then slice_to (validation_sample_size s) code @ newline @ ''... (truncated)''
      else slice_to (validation_sample_size s) code)"

text \<open>
  The loop \<open>for provider_name in ["ollama", "gemini"]\<close> of \<open>_validate_input_code\<close>, on
  the names still to try and the errors collected so far.
\<close>

fun validate_loop ::
  "CodeExplainer \<Rightarrow> env \<Rightarrow> string \<Rightarrow> string list \<Rightarrow> string list \<Rightarrow> state
     \<Rightarrow> (error + ValidationResult) \<times> state" where
  "validate_loop self w code [] validation_errors st = (Inr (skipped validation_errors), st)"
| "validate_loop self w code (provider_name # rest) validation_errors st =
     (case providers self provider_name of
        None \<Rightarrow> validate_loop self w code rest validation_errors st
      | Some p \<Rightarrow>
          if \<not> is_available w p then validate_loop self w code rest validation_errors st
          else
            (case generate_structured w st p
                    (get_validation_prompt (code_sample (settings w) code)) of
               (Inr result, st1) \<Rightarrow> (Inr result, st1)
             | (Inl e, st1) \<Rightarrow>
                 if is_Exception e
                 then validate_loop self w code rest
                        (validation_errors @ [provider_name @ '': '' @ str e]) st1
                 else (Inl e, st1)))"

definition validate_input_code ::
  "CodeExplainer \<Rightarrow> env \<Rightarrow> state \<Rightarrow> string \<Rightarrow> (error + ValidationResult) \<times> state" where
  "validate_input_code self w st code =
     (if int (length (strip code)) < min_code_length (settings w)
      then (Inr (too_short (settings w)), st)
      else if int (length code) > max_code_length (settings w)
      then (Inr (too_large (settings w)), st)
      else validate_loop self w code [''ollama'', ''gemini''] [] st)"

subsection \<open>\<open>explain\<close>\<close>

text \<open>Lines 165 to 168: the validation gate. \<open>Some e\<close> is the exception raised.\<close>

definition validation_gate ::
  "CodeExplainer \<Rightarrow> env \<Rightarrow> state \<Rightarrow> string \<Rightarrow> bool \<Rightarrow> error option \<times> state" where
  "validation_gate self w st code validate_input =
     (if validate_input
      then
        (case validate_input_code self w st code of
           (Inl e, st1) \<Rightarrow> (Some e, st1)
         | (Inr validation_result, st1) \<Rightarrow>
             if \<not> is_valid validation_result
             then (Some (ValueError (''Input validation failed: '' @ reason validation_result)),
                   st1)
             else (None, st1))
      else (None, st))"

fun is_ValueError :: "error \<Rightarrow> bool" where
  "is_ValueError (ValueError m) = True"
| "is_ValueError e = False"

text \<open>Lines 171 to 181: the provider is resolved, with the substitution of the other one.\<close>

definition resolve_provider ::
  "CodeExplainer \<Rightarrow> env \<Rightarrow> string option \<Rightarrow> bool \<Rightarrow> error + provider" where
  "resolve_provider self w provider_name auto_fallback =
     (case get_provider self w provider_name of
        Inr p \<Rightarrow> Inr p
      | Inl e \<Rightarrow>
          if \<not> is_ValueError e then Inl e
          else if \<not> auto_fallback then Inl e
          else
            (case get_fallback_provider self w (py_or provider_name (default_provider self)) of
               None \<Rightarrow> Inl (ValueError ''No ML providers are available'')
             | Some fallback_provider \<Rightarrow> Inr fallback_provider))"

text \<open>
  Lines 184 to 198: the cache probe. The result is the cache key (when caching is on), the
  cached result on a hit, and the state.
\<close>

definition cache_lookup ::
  "CodeExplainer \<Rightarrow> env \<Rightarrow> state \<Rightarrow> string \<Rightarrow> provider \<Rightarrow> bool
     \<Rightarrow> string option \<times> ExplanationResult option \<times> state" where
  "cache_lookup self w st code p stream_callback =
     (if use_cache self
      then
        (case time_time w st of (cache_start, st1) \<Rightarrow>
           (case cache_get w st1
                   (get_cache_key (sha256_hexdigest w) code (name p) (model_of p)) of
              (None, st2) \<Rightarrow>
                (Some (get_cache_key (sha256_hexdigest w) code (name p) (model_of p)), None, st2)
            | (Some cached_result, st2) \<Rightarrow>
                (case time_time w st2 of (t_end, st3) \<Rightarrow>
                   (Some (get_cache_key (sha256_hexdigest w) code (name p) (model_of p)),
                    Some (cached_result\<lparr>metrics := (metrics cached_result)
                            \<lparr>start_time := cache_start, end_time := Some t_end,
                             cache_hit := True\<rparr>\<rparr>),
                    if stream_callback then emit (SinkCall (explanation cached_result)) st3
                    else st3))))
      else (None, None, st))"

text \<open>
  Lines 209 to 221: the end time is taken, the result is built (its creation time read from
  the clock) and saved under the key when caching is on and the key is a non-empty string.
\<close>

definition store_result ::
  "CodeExplainer \<Rightarrow> env \<Rightarrow> state \<Rightarrow> string \<Rightarrow> string option \<Rightarrow> string \<Rightarrow> PerformanceMetrics
     \<Rightarrow> ExplanationResult \<times> state" where
  "store_result self w st code cache_key expl m =
     (case time_time w st of (t_end, st1) \<Rightarrow>
        (case time_time w st1 of (created, st2) \<Rightarrow>
           (\<lparr>original_code = code, explanation = expl,
             metrics = m\<lparr>end_time := Some t_end\<rparr>, timestamp = created\<rparr>,
            if use_cache self \<and> truthy_str cache_key
            then cache_set w st2 (the cache_key)
                   \<lparr>original_code = code, explanation = expl,
                    metrics = m\<lparr>end_time := Some t_end\<rparr>, timestamp = created\<rparr>
                   (cache_ttl self)
            else st2)))"

definition new_metrics :: "provider \<Rightarrow> real \<Rightarrow> PerformanceMetrics" where
  "new_metrics p t =
     \<lparr>model = model_of p, model_provider = name p, start_time = t, end_time = None,
      time_to_first_token = None, total_tokens = None, error = None, cache_hit = False\<rparr>"

text \<open>
  One pass through the body of \<open>explain\<close> up to the fallback decision (lines 164 to 225).
  It ends in one of three ways: a result is returned; an exception leaves \<open>explain\<close> (raised
  before the \<open>try\<close> block of the generation, or one that \<open>except Exception\<close> does not catch);
  or the handler of line 223 has caught the exception of the provider's generation and has
  recorded the end time and the message in the metrics of the failed attempt.
\<close>

datatype attempt =
    Returned ExplanationResult
  | Raised error
  | GenerationFailed provider error PerformanceMetrics

definition explain_attempt ::
  "CodeExplainer \<Rightarrow> env \<Rightarrow> state \<Rightarrow> string \<Rightarrow> string option \<Rightarrow> bool \<Rightarrow> bool \<Rightarrow> bool
     \<Rightarrow> attempt \<times> state" where
  "explain_attempt self w st code provider_name auto_fallback stream_callback validate_input =
     (case validation_gate self w st code validate_input of
        (Some e, st1) \<Rightarrow> (Raised e, st1)
      | (None, st1) \<Rightarrow>
          (case resolve_provider self w provider_name auto_fallback of
             Inl e \<Rightarrow> (Raised e, st1)
           | Inr p \<Rightarrow>
               (case cache_lookup self w st1 code p stream_callback of
                  (cache_key, Some cached_result, st2) \<Rightarrow> (Returned cached_result, st2)
                | (cache_key, None, st2) \<Rightarrow>
                    (case time_time w st2 of (t0, st3) \<Rightarrow>
                       (case explain_code w st3 p code (new_metrics p t0) stream_callback of
                          (Inr expl, m1, st4) \<Rightarrow>
                            (case store_result self w st4 code cache_key expl m1 of
                               (result, st5) \<Rightarrow> (Returned result, st5))
                        | (Inl e, m1, st4) \<Rightarrow>
                            if is_Exception e
                            then
                              (case time_time w st4 of (t1, st5) \<Rightarrow>
                                 (GenerationFailed p e
                                    (m1\<lparr>end_time := Some t1, error := Some (str e)\<rparr>), st5))
                            else (Raised e, st4))))))"

text \<open>
  \<open>explain\<close>: the pass above, then lines 227 to 238. The retry is the recursive call, on
  the state the failed attempt left.
\<close>

function explain ::
  "CodeExplainer \<Rightarrow> env \<Rightarrow> state \<Rightarrow> string \<Rightarrow> string option \<Rightarrow> bool \<Rightarrow> bool \<Rightarrow> bool
     \<Rightarrow> (error + ExplanationResult) \<times> state" where
  "explain self w st code provider_name auto_fallback stream_callback validate_input =
     (case explain_attempt self w st code provider_name auto_fallback stream_callback
             validate_input of
        (Returned result, st1) \<Rightarrow> (Inr result, st1)
      | (Raised e, st1) \<Rightarrow> (Inl e, st1)
      | (GenerationFailed p e m1, st1) \<Rightarrow>
          if auto_fallback
          then
            (case get_fallback_provider self w (name p) of
               Some fallback_provider \<Rightarrow>
                 explain self w st1 code (Some (name fallback_provider)) False stream_callback
                   False
             | None \<Rightarrow> (Inl e, st1))
          else (Inl e, st1))"
  by pat_completeness auto
termination
  by (relation "measure (\<lambda>(self, w, st, code, provider_name, auto_fallback, cb, vi).
                           if auto_fallback then 1 else 0)") auto

declare explain.simps [simp del]

definition list_available_providers :: "CodeExplainer \<Rightarrow> env \<Rightarrow> string list" where
  "list_available_providers self w =
     filter (\<lambda>n. case providers self n of None \<Rightarrow> False | Some p \<Rightarrow> is_available w p)
       [''gemini'', ''ollama'']"

section \<open>Reading a trace\<close>

text \<open>
  The text fragment a chunk carries (none is the empty text), the texts the callback
  received, in order, and the number of generation requests issued to the backend of a
  given name.
\<close>

definition fragment :: "string option \<Rightarrow> string" where
  "fragment x = (case x of None \<Rightarrow> [] | Some s \<Rightarrow> s)"

fun sink_calls :: "event list \<Rightarrow> string list" where
  "sink_calls [] = []"
| "sink_calls (SinkCall t # evs) = t # sink_calls evs"
| "sink_calls (ev # evs) = sink_calls evs"

fun stream_opens :: "string \<Rightarrow> event list \<Rightarrow> nat" where
  "stream_opens n [] = 0"
| "stream_opens n (StreamOpen k prompt # evs) = (if k = n then 1 else 0) + stream_opens n evs"
| "stream_opens n (ev # evs) = stream_opens n evs"

fun structured_calls :: "event list \<Rightarrow> nat" where
  "structured_calls [] = 0"
| "structured_calls (StructuredCall k prompt # evs) = 1 + structured_calls evs"
| "structured_calls (ev # evs) = structured_calls evs"

text \<open>
  What handling chunks with the texts \<open>xs\<close> leaves in the trace when a callback is
  supplied: before each chunk the request for it, and after each non-empty text the call of
  the callback with it.
\<close>

fun forwarded :: "string \<Rightarrow> string list \<Rightarrow> event list" where
  "forwarded n [] = []"
| "forwarded n (x # xs) = Fetch n # (if x = [] then [] else [SinkCall x]) @ forwarded n xs"

text \<open>
  The chunks a stream delivers before it raises or ends, and whether it ends without
  raising.
\<close>

fun received :: "'c item list \<Rightarrow> 'c list" where
  "received [] = []"
| "received (Raises e # rest) = []"
| "received (Chunk c # rest) = c # received rest"

fun runs_to_end :: "'c item list \<Rightarrow> bool" where
  "runs_to_end [] = True"
| "runs_to_end (Raises e # rest) = False"
| "runs_to_end (Chunk c # rest) = runs_to_end rest"

text \<open>
  For Ollama: a final chunk that lacks a token count, the chunks handled up to and
  including the first such chunk, whether there is one among the chunks delivered, and
  whether the stream ends without raising and without one.
\<close>

definition incomplete_counts :: "ollama_chunk \<Rightarrow> bool" where
  "incomplete_counts c =
     (chunk_done c \<and> (prompt_eval_count c = None \<or> eval_count c = None))"

fun ollama_handled :: "ollama_chunk item list \<Rightarrow> ollama_chunk list" where
  "ollama_handled [] = []"
| "ollama_handled (Raises e # rest) = []"
| "ollama_handled (Chunk c # rest) =
     (if incomplete_counts c then [c] else c # ollama_handled rest)"

fun ollama_cut :: "ollama_chunk item list \<Rightarrow> bool" where
  "ollama_cut [] = False"
| "ollama_cut (Raises e # rest) = False"
| "ollama_cut (Chunk c # rest) = (incomplete_counts c \<or> ollama_cut rest)"

fun ollama_completes :: "ollama_chunk item list \<Rightarrow> bool" where
  "ollama_completes [] = True"
| "ollama_completes (Raises e # rest) = False"
| "ollama_completes (Chunk c # rest) = (\<not> incomplete_counts c \<and> ollama_completes rest)"

text \<open>
  A step that leaves the cache as it was and issues no generation request, and the
  exception of a failed generation.
\<close>

definition unchanged :: "state \<Rightarrow> state \<Rightarrow> bool" where
  "unchanged st st' =
     (cache st' = cache st \<and> (\<forall>n. stream_opens n (trace st') = stream_opens n (trace st)))"

fun generation_error :: "attempt \<Rightarrow> error option" where
  "generation_error (GenerationFailed p e m) = Some e"
| "generation_error (Returned r) = None"
| "generation_error (Raised e) = None"

section \<open>Concrete runs\<close>

text \<open>
  A world to run the service in: the default settings with an API key, both backends
  reachable, a validator that accepts, an Ollama stream of two fragments and a Gemini stream
  of one. The digest is the identity (no two inputs collide) and the \<open>n\<close>-th clock reading
  is \<open>n\<close>.
\<close>

definition hello_stream :: "string \<Rightarrow> string \<Rightarrow> error + ollama_chunk item list" where
  "hello_stream mdl prompt =
     Inr [Chunk \<lparr>content = Some ''Hello'', chunk_done = False,
                 prompt_eval_count = None, eval_count = None\<rparr>,
          Chunk \<lparr>content = Some ('' world'' @ newline), chunk_done = True,
                 prompt_eval_count = Some 12, eval_count = Some 8\<rparr>]"

definition hi_stream :: "string \<Rightarrow> string \<Rightarrow> error + gemini_chunk item list" where
  "hi_stream mdl prompt = Inr [Chunk \<lparr>chunk_text = Some ''Hi'', usage_metadata = Some (Some 5)\<rparr>]"

definition accepting_chat :: "string \<Rightarrow> string \<Rightarrow> error + string option" where
  "accepting_chat mdl prompt = Inr (Some ''{}'')"

definition accepting_parse :: "string \<Rightarrow> error + ValidationResult" where
  "accepting_parse c = Inr \<lparr>is_valid = True, reason = ''looks like code'', confidence = 9 / 10\<rparr>"

definition accepting_content :: "string \<Rightarrow> string \<Rightarrow> error + ValidationResult option" where
  "accepting_content mdl prompt =
     Inr (Some \<lparr>is_valid = True, reason = ''looks like code'', confidence = 8 / 10\<rparr>)"

definition world0 :: env where
  "world0 =
     \<lparr>settings = default_settings ''k3y'',
      ollama_list_ok = True,
      ollama_chat = accepting_chat,
      model_validate_json = accepting_parse,
      gemini_generate_content = accepting_content,
      ollama_chat_stream = hello_stream,
      gemini_generate_content_stream = hi_stream,
      sha256_hexdigest = id,
      time_at = real\<rparr>"

definition explainer0 :: CodeExplainer where
  "explainer0 = CodeExplainer_init (default_settings ''k3y'') None"

definition state0 :: state where
  "state0 = \<lparr>cache = Map.empty, clock = 0, trace = []\<rparr>"

text \<open>An Ollama stream of the two fragments "Hello" and " world".\<close>

definition hello_world_stream :: "string \<Rightarrow> string \<Rightarrow> error + ollama_chunk item list" where
  "hello_world_stream mdl prompt =
     Inr (map Chunk
       [\<lparr>content = Some ''Hello'', chunk_done = False,
          prompt_eval_count = None, eval_count = None\<rparr>,
        \<lparr>content = Some '' world'', chunk_done = True,
          prompt_eval_count = Some 12, eval_count = Some 8\<rparr>])"

definition world_hello :: env where
  "world_hello = world0\<lparr>ollama_chat_stream := hello_world_stream\<rparr>"

text \<open>An Ollama stream that breaks after the fragment "Hello".\<close>

definition broken_stream :: "string \<Rightarrow> string \<Rightarrow> error + ollama_chunk item list" where
  "broken_stream mdl prompt =
     Inr [Chunk \<lparr>content = Some ''Hello'', chunk_done = False,
                 prompt_eval_count = None, eval_count = None\<rparr>,
          Raises (OtherException ''peer closed connection'')]"

definition world_broken :: env where
  "world_broken = world0\<lparr>ollama_chat_stream := broken_stream\<rparr>"

text \<open>Backends that fail.\<close>

definition ollama_down :: "string \<Rightarrow> string \<Rightarrow> error + ollama_chunk item list" where
  "ollama_down mdl prompt = Inl (OtherException ''[Errno 111] Connection refused'')"

definition gemini_down :: "string \<Rightarrow> string \<Rightarrow> error + gemini_chunk item list" where
  "gemini_down mdl prompt = Inl (OtherException ''503 service unavailable'')"

definition chat_down :: "string \<Rightarrow> string \<Rightarrow> error + string option" where
  "chat_down mdl prompt = Inl (OtherException ''[Errno 111] Connection refused'')"

definition content_down :: "string \<Rightarrow> string \<Rightarrow> error + ValidationResult option" where
  "content_down mdl prompt = Inl (OtherException ''503 service unavailable'')"

text \<open>Ollama not running; no API key for Gemini.\<close>

definition world_ollama_off :: env where
  "world_ollama_off = world0\<lparr>ollama_list_ok := False\<rparr>"

definition explainer_nokey :: CodeExplainer where
  "explainer_nokey = CodeExplainer_init (default_settings []) None"

text \<open>No API key for Gemini, Ollama running.\<close>

definition world_nokey :: env where
  "world_nokey = world0\<lparr>settings := default_settings []\<rparr>"

text \<open>Both backends refuse the validation call.\<close>

definition world_validators_down :: env where
  "world_validators_down =
     world0\<lparr>ollama_chat := chat_down, gemini_generate_content := content_down\<rparr>"

text \<open>Gemini's generation fails; both generations fail.\<close>

definition world_gemini_down :: env where
  "world_gemini_down = world0\<lparr>gemini_generate_content_stream := gemini_down\<rparr>"

definition world_both_down :: env where
  "world_both_down =
     world0\<lparr>gemini_generate_content_stream := gemini_down, ollama_chat_stream := ollama_down\<rparr>"

text \<open>
  A cache that holds an unexpired result for the snippet under the key of the default
  provider, and a validator that rejects.
\<close>

definition cached0 :: ExplanationResult where
  "cached0 =
     \<lparr>original_code = ''print(12345678)'', explanation = ''It prints a number.'',
      metrics = \<lparr>model = ''gemini-2.5-flash'', model_provider = ''gemini'', start_time = 0,
                 end_time = Some 4, time_to_first_token = Some 1, total_tokens = Some 30,
                 error = None, cache_hit = False\<rparr>,
      timestamp = 4\<rparr>"

definition state_cached :: state where
  "state_cached =
     \<lparr>cache = [get_cache_key id ''print(12345678)'' ''gemini'' ''gemini-2.5-flash''
                  \<mapsto> (cached0, Some 1000)],
      clock = 10, trace = []\<rparr>"

definition rejecting_parse :: "string \<Rightarrow> error + ValidationResult" where
  "rejecting_parse c = Inr \<lparr>is_valid = False, reason = ''not code'', confidence = 9 / 10\<rparr>"

definition world_rejecting :: env where
  "world_rejecting = world0\<lparr>model_validate_json := rejecting_parse\<rparr>"

section \<open>Unfolding a concrete run\<close>

text \<open>The definitions a run in one of the worlds above unfolds.\<close>

lemmas run_defs = world0_def world_ollama_off_def explainer0_def explainer_nokey_def state0_def
  CodeExplainer_init_def GeminiProvider_init_def OllamaProvider_init_def default_settings_def
  py_or_def truthy_str_def providers_def

lemmas world_defs = world_gemini_down_def world_both_down_def world_rejecting_def
  world_broken_def broken_stream_def world_nokey_def
  world_validators_down_def world_hello_def hello_stream_def hi_stream_def accepting_chat_def
  accepting_parse_def accepting_content_def ollama_down_def gemini_down_def chat_down_def
  content_down_def rejecting_parse_def state_cached_def cached0_def hello_world_stream_def

lemmas string_defs = strip_def isspace_def whitespace_def lower_def lower_char_def newline_def
  ollama_classify_def gemini_classify_def

lemmas stream_defs = explain_code_def ollama_invoke_model_def ollama_try_def ollama_step_def
  gemini_invoke_model_def gemini_try_def gemini_step_def gemini_usage_def
  emit_def time_time_def new_metrics_def model_of_def add_counts_def type_name_def

lemmas explain_defs = explain_attempt_def validation_gate_def validate_input_code_def
  resolve_provider_def get_provider_def get_fallback_provider_def fallback_name_def
  cache_lookup_def cache_get_def cache_set_def store_result_def get_cache_key_def
  cache_input_def generate_structured_def structured_result_def code_sample_def slice_to_def

section \<open>Metrics derivation\<close>

text \<open>
  C4, as the specification states it, fails: \<open>tokens_per_second\<close> is guarded by the
  truthiness of \<open>total_tokens\<close>, so with \<open>end_time\<close> and \<open>time_to_first_token\<close> set and
  a positive generation time it is still undefined when the token count is zero (the
  specification's formula gives \<open>0 / 2 = 0\<close>).
\<close>

theorem C4_tokens_per_second_counterexample:
  "end_time \<lparr>model = ''m'', model_provider = ''ollama'', start_time = 0, end_time = Some 3,
      time_to_first_token = Some 1, total_tokens = Some 0, error = None, cache_hit = False\<rparr>
     = Some 3
   \<and> time_to_first_token \<lparr>model = ''m'', model_provider = ''ollama'', start_time = 0,
      end_time = Some 3, time_to_first_token = Some 1, total_tokens = Some 0, error = None,
      cache_hit = False\<rparr> = Some 1
   \<and> (0::real) < 3 - (0 + 1)
   \<and> tokens_per_second \<lparr>model = ''m'', model_provider = ''ollama'', start_time = 0,
      end_time = Some 3, time_to_first_token = Some 1, total_tokens = Some 0, error = None,
      cache_hit = False\<rparr> = None
   \<and> tokens_per_second \<lparr>model = ''m'', model_provider = ''ollama'', start_time = 0,
      end_time = Some 3, time_to_first_token = Some 1, total_tokens = Some 0, error = None,
      cache_hit = False\<rparr> \<noteq> Some (real_of_int 0 / (3 - (0 + 1)))"
  by (simp add: tokens_per_second_def truthy_real_def truthy_int_def)

text \<open>
  C4 (amended): \<open>total_time\<close> is \<open>end_time - start_time\<close> whenever \<open>end_time\<close> is set
  and non-zero, and undefined otherwise; \<open>tokens_per_second\<close> is
  \<open>total_tokens / (end_time - (start_time + time_to_first_token))\<close> whenever \<open>end_time\<close>,
  \<open>time_to_first_token\<close> and \<open>total_tokens\<close> are all set and non-zero and that
  denominator is positive, and undefined otherwise. For start 0, first token after 1,
  end 3 and 20 tokens the rate is 10.
\<close>

theorem C4_metrics_derivation:
  "(\<forall>e. end_time m = Some e \<and> e \<noteq> 0 \<longrightarrow> total_time m = Some (e - start_time m))
   \<and> (end_time m = None \<or> end_time m = Some 0 \<longrightarrow> total_time m = None)
   \<and> (\<forall>e t n. end_time m = Some e \<and> e \<noteq> 0 \<and> time_to_first_token m = Some t \<and> t \<noteq> 0
          \<and> total_tokens m = Some n \<and> n \<noteq> 0 \<and> 0 < e - (start_time m + t)
        \<longrightarrow> tokens_per_second m = Some (real_of_int n / (e - (start_time m + t))))
   \<and> (end_time m = None \<or> end_time m = Some 0
        \<or> time_to_first_token m = None \<or> time_to_first_token m = Some 0
        \<or> total_tokens m = None \<or> total_tokens m = Some 0
        \<or> (\<forall>e t. end_time m = Some e \<and> time_to_first_token m = Some t
              \<longrightarrow> e - (start_time m + t) \<le> 0)
        \<longrightarrow> tokens_per_second m = None)
   \<and> tokens_per_second \<lparr>model = ''m'', model_provider = ''p'', start_time = 0,
        end_time = Some 3, time_to_first_token = Some 1, total_tokens = Some 20,
        error = None, cache_hit = False\<rparr> = Some 10"
proof (intro conjI allI impI)
  fix e assume "end_time m = Some e \<and> e \<noteq> 0"
  then show "total_time m = Some (e - start_time m)"
    by (simp add: total_time_def truthy_real_def)
next
  assume "end_time m = None \<or> end_time m = Some 0"
  then show "total_time m = None"
    by (auto simp: total_time_def truthy_real_def)
next
  fix e t n
  assume "end_time m = Some e \<and> e \<noteq> 0 \<and> time_to_first_token m = Some t \<and> t \<noteq> 0
          \<and> total_tokens m = Some n \<and> n \<noteq> 0 \<and> 0 < e - (start_time m + t)"
  then show "tokens_per_second m = Some (real_of_int n / (e - (start_time m + t)))"
    by (simp add: tokens_per_second_def truthy_real_def truthy_int_def Let_def)
next
  assume "end_time m = None \<or> end_time m = Some 0
        \<or> time_to_first_token m = None \<or> time_to_first_token m = Some 0
        \<or> total_tokens m = None \<or> total_tokens m = Some 0
        \<or> (\<forall>e t. end_time m = Some e \<and> time_to_first_token m = Some t
              \<longrightarrow> e - (start_time m + t) \<le> 0)"
  then show "tokens_per_second m = None"
    by (auto simp: tokens_per_second_def truthy_real_def truthy_int_def Let_def
             split: option.splits)
next
  show "tokens_per_second \<lparr>model = ''m'', model_provider = ''p'', start_time = 0,
        end_time = Some 3, time_to_first_token = Some 1, total_tokens = Some 20,
        error = None, cache_hit = False\<rparr> = Some 10"
    by (simp add: tokens_per_second_def truthy_real_def truthy_int_def)
qed

theorem C4_metrics_derivation_witness:
  "total_time \<lparr>model = ''m'', model_provider = ''p'', start_time = 1,
        end_time = Some 3, time_to_first_token = Some 1, total_tokens = Some 20,
        error = None, cache_hit = False\<rparr> = Some 2
   \<and> tokens_per_second \<lparr>model = ''m'', model_provider = ''p'', start_time = 1,
        end_time = Some 3, time_to_first_token = Some 1, total_tokens = Some 20,
        error = None, cache_hit = False\<rparr> = Some 20
   \<and> total_time \<lparr>model = ''m'', model_provider = ''p'', start_time = 1,
        end_time = None, time_to_first_token = Some 1, total_tokens = Some 20,
        error = None, cache_hit = False\<rparr> = None
   \<and> tokens_per_second \<lparr>model = ''m'', model_provider = ''p'', start_time = 1,
        end_time = None, time_to_first_token = Some 1, total_tokens = Some 20,
        error = None, cache_hit = False\<rparr> = None"
  using C4_metrics_derivation [of "\<lparr>model = ''m'', model_provider = ''p'', start_time = 1,
        end_time = Some 3, time_to_first_token = Some 1, total_tokens = Some 20,
        error = None, cache_hit = False\<rparr>"]
    C4_metrics_derivation [of "\<lparr>model = ''m'', model_provider = ''p'', start_time = 1,
        end_time = None, time_to_first_token = Some 1, total_tokens = Some 20,
        error = None, cache_hit = False\<rparr>"]
  by simp

section \<open>The cache key\<close>

lemma bar_split:
  assumes "c \<notin> set b" "c \<notin> set b'" "a @ c # b = a' @ c # b'"
  shows "a = a' \<and> b = b'"
  using assms
  by (auto simp: append_eq_append_conv2 append_eq_Cons_conv Cons_eq_append_conv)

lemma cache_input_inj:
  assumes "CHR ''|'' \<notin> set p1 \<union> set m1 \<union> set p2 \<union> set m2"
    and "cache_input c1 p1 m1 = cache_input c2 p2 m2"
  shows "c1 = c2 \<and> p1 = p2 \<and> m1 = m2"
proof -
  from assms(2) have "(c1 @ ''|'' @ p1) @ CHR ''|'' # m1 = (c2 @ ''|'' @ p2) @ CHR ''|'' # m2"
    by (simp add: cache_input_def)
  with assms(1) have a: "c1 @ ''|'' @ p1 = c2 @ ''|'' @ p2" and b: "m1 = m2"
    using bar_split [of "CHR ''|''" m1 m2 "c1 @ ''|'' @ p1" "c2 @ ''|'' @ p2"] by auto
  from a have "c1 @ CHR ''|'' # p1 = c2 @ CHR ''|'' # p2" by simp
  with assms(1) have "c1 = c2 \<and> p1 = p2"
    using bar_split [of "CHR ''|''" p1 p2 c1 c2] by auto
  with b show ?thesis by simp
qed

text \<open>
  C3 (amended): the cache key is a function of the triple, and, for a digest without
  collisions, two triples whose provider names and model names contain no vertical bar have
  the same key exactly when they are the same triple.
\<close>

theorem C3_cache_key:
  assumes "inj digest"
    and "CHR ''|'' \<notin> set p1 \<union> set m1 \<union> set p2 \<union> set m2"
  shows "(get_cache_key digest c1 p1 m1 = get_cache_key digest c2 p2 m2)
           = (c1 = c2 \<and> p1 = p2 \<and> m1 = m2)"
proof
  assume "get_cache_key digest c1 p1 m1 = get_cache_key digest c2 p2 m2"
  with assms(1) have "cache_input c1 p1 m1 = cache_input c2 p2 m2"
    by (simp add: get_cache_key_def inj_eq)
  with assms(2) show "c1 = c2 \<and> p1 = p2 \<and> m1 = m2" by (rule cache_input_inj)
next
  assume "c1 = c2 \<and> p1 = p2 \<and> m1 = m2"
  then show "get_cache_key digest c1 p1 m1 = get_cache_key digest c2 p2 m2" by simp
qed

theorem C3_cache_key_witness:
  "get_cache_key id ''x = 1'' ''gemini'' ''gemini-2.5-flash''
     \<noteq> get_cache_key id ''x = 1'' ''ollama'' ''llama3.2:1b''"
  using C3_cache_key [of id "''gemini''" "''gemini-2.5-flash''" "''ollama''" "''llama3.2:1b''"
      "''x = 1''" "''x = 1''"]
  by simp

text \<open>
  C3, as the specification states it, fails: the three components are joined by a vertical
  bar before hashing, so two different triples can give the same hash input, and then the
  same key whatever the digest is (here with the identity as a collision-free digest).
\<close>

theorem C3_cache_key_counterexample:
  "cache_input ''a|b'' ''c'' ''d'' = cache_input ''a'' ''b|c'' ''d''
   \<and> get_cache_key id ''a|b'' ''c'' ''d'' = get_cache_key id ''a'' ''b|c'' ''d''
   \<and> (''a|b'', ''c'', ''d'') \<noteq> (''a'', ''b|c'', ''d'')"
  by (simp add: get_cache_key_def cache_input_def)

section \<open>Validation: the length checks\<close>

lemma length_strip_le: "length (strip s) \<le> length s"
proof -
  have "length (dropWhile isspace (rev (dropWhile isspace s)))
          \<le> length (rev (dropWhile isspace s))"
    by (rule length_dropWhile_le)
  also have "\<dots> = length (dropWhile isspace s)" by simp
  also have "\<dots> \<le> length s" by (rule length_dropWhile_le)
  finally show ?thesis by (simp add: strip_def)
qed

lemma strip_spaces: "strip (replicate n (CHR '' '')) = []"
  by (simp add: strip_def isspace_def whitespace_def)

text \<open>
  C8 (amended): an input whose trimmed length is below the minimum is invalid with
  confidence 1 and a reason stating the minimum; an input whose trimmed length reaches the
  minimum and whose raw length exceeds the maximum is invalid with confidence 1 and a reason
  stating the maximum in thousands of characters (\<open>max // 1000\<close>, as KB); every input
  whose raw length exceeds the maximum is invalid with confidence 1. In all these cases
  the state is returned as it was: no provider is contacted. Code of length 5 with
  minimum 10 is invalid with confidence 1.
\<close>

theorem C8_length_checks:
  "(int (length (strip code)) < min_code_length (settings w) \<longrightarrow>
      validate_input_code self w st code =
        (Inr \<lparr>is_valid = False,
              reason = ''Code is too short (minimum '' @ str_int (min_code_length (settings w))
                       @ '' characters)'',
              confidence = 1\<rparr>, st))
   \<and> (\<not> int (length (strip code)) < min_code_length (settings w)
       \<and> int (length code) > max_code_length (settings w) \<longrightarrow>
      validate_input_code self w st code =
        (Inr \<lparr>is_valid = False,
              reason = ''Code is too large (maximum ''
                       @ str_int (max_code_length (settings w) div 1000) @ ''KB)'',
              confidence = 1\<rparr>, st))
   \<and> (int (length code) > max_code_length (settings w) \<longrightarrow>
      (\<exists>v. validate_input_code self w st code = (Inr v, st)
           \<and> \<not> is_valid v \<and> confidence v = 1))
   \<and> (length code = 5 \<and> min_code_length (settings w) = 10 \<longrightarrow>
      validate_input_code self w st code =
        (Inr \<lparr>is_valid = False, reason = ''Code is too short (minimum 10 characters)'',
              confidence = 1\<rparr>, st))"
proof (intro conjI impI)
  assume "int (length (strip code)) < min_code_length (settings w)"
  then show "validate_input_code self w st code =
        (Inr \<lparr>is_valid = False,
              reason = ''Code is too short (minimum '' @ str_int (min_code_length (settings w))
                       @ '' characters)'',
              confidence = 1\<rparr>, st)"
    by (simp add: validate_input_code_def too_short_def)
next
  assume "\<not> int (length (strip code)) < min_code_length (settings w)
       \<and> int (length code) > max_code_length (settings w)"
  then show "validate_input_code self w st code =
        (Inr \<lparr>is_valid = False,
              reason = ''Code is too large (maximum ''
                       @ str_int (max_code_length (settings w) div 1000) @ ''KB)'',
              confidence = 1\<rparr>, st)"
    by (simp add: validate_input_code_def too_large_def)
next
  assume "int (length code) > max_code_length (settings w)"
  then show "\<exists>v. validate_input_code self w st code = (Inr v, st)
           \<and> \<not> is_valid v \<and> confidence v = 1"
    by (simp add: validate_input_code_def too_large_def too_short_def)
next
  assume a: "length code = 5 \<and> min_code_length (settings w) = 10"
  have "length (strip code) \<le> length code" by (rule length_strip_le)
  with a have "int (length (strip code)) < min_code_length (settings w)" by simp
  with a show "validate_input_code self w st code =
        (Inr \<lparr>is_valid = False, reason = ''Code is too short (minimum 10 characters)'',
              confidence = 1\<rparr>, st)"
    by (simp add: validate_input_code_def too_short_def str_int_def str_nat.simps digit_def)
qed

theorem C8_length_checks_witness:
  "validate_input_code explainer0 world0 state0 ''x = 1'' =
     (Inr \<lparr>is_valid = False, reason = ''Code is too short (minimum 10 characters)'',
           confidence = 1\<rparr>, state0)
   \<and> validate_input_code explainer0 world0 state0 (replicate 100001 (CHR ''x'')) =
     (Inr \<lparr>is_valid = False, reason = ''Code is too large (maximum 100KB)'',
           confidence = 1\<rparr>, state0)"
  using C8_length_checks [of "''x = 1''" world0 explainer0 state0]
    C8_length_checks [of "replicate 100001 (CHR ''x'')" world0 explainer0 state0]
  by (simp add: world0_def default_settings_def strip_def isspace_def whitespace_def
        str_int_def str_nat.simps digit_def)

text \<open>
  C8, as the specification states it, fails: the minimum is checked first, so an input of
  100001 spaces, longer than the maximum of 100000, is rejected with the reason that states
  the minimum, not the maximum.
\<close>

theorem C8_length_checks_counterexample:
  "int (length (replicate 100001 (CHR '' ''))) > max_code_length (settings world0)
   \<and> validate_input_code explainer0 world0 state0 (replicate 100001 (CHR '' '')) =
     (Inr \<lparr>is_valid = False, reason = ''Code is too short (minimum 10 characters)'',
           confidence = 1\<rparr>, state0)"
  by (simp add: validate_input_code_def too_short_def strip_spaces world0_def
        default_settings_def str_int_def str_nat.simps digit_def)

section \<open>Provider resolution\<close>

lemma get_provider_cases:
  "get_provider self w pn =
     (if py_or pn (default_provider self) = ''gemini''
      then (if is_available w (GeminiProvider (gemini self))
            then Inr (GeminiProvider (gemini self))
            else Inl (ValueError (''Provider gemini is not available (missing API key)'')))
      else if py_or pn (default_provider self) = ''ollama''
      then (if is_available w (OllamaProvider (ollama self))
            then Inr (OllamaProvider (ollama self))
            else Inl (ValueError (''Provider ollama is not available (missing API key)'')))
      else Inl (ValueError (''Unknown provider: '' @ py_or pn (default_provider self))))"
  by (simp add: get_provider_def providers_def)

lemma get_provider_error: "get_provider self w pn = Inl e \<Longrightarrow> is_ValueError e"
  by (auto simp: get_provider_cases split: if_splits)

lemma get_fallback_provider_cases:
  "get_fallback_provider self w failed =
     (if is_available w (if failed = ''gemini'' then OllamaProvider (ollama self)
                         else GeminiProvider (gemini self))
      then Some (if failed = ''gemini'' then OllamaProvider (ollama self)
                 else GeminiProvider (gemini self))
      else None)"
  by (simp add: get_fallback_provider_def providers_def fallback_name_def)

text \<open>
  What the resolution does, case by case. With \<open>n\<close> the requested name, or the default when
  none (or the empty string) is given, \<open>_get_provider\<close> fails with "Unknown provider" when
  \<open>n\<close> is not registered, with "is not available" when the provider named \<open>n\<close> reports
  itself unavailable, and returns the provider otherwise. When it fails and
  \<open>auto_fallback\<close> is off, the failure is the result of the resolution; when \<open>auto_fallback\<close>
  is on, the provider that \<open>_get_fallback_provider\<close> picks (\<open>ollama\<close> for \<open>gemini\<close>,
  \<open>gemini\<close> for any other name) is substituted if it is available, and otherwise the
  resolution fails with "No ML providers are available". A failed resolution is what
  \<open>explain\<close> raises.
\<close>

lemma provider_resolution:
  assumes "n = py_or provider_name (default_provider self)"
    and "other = (if n = ''gemini'' then OllamaProvider (ollama self)
                  else GeminiProvider (gemini self))"
  shows
  "(providers self n = None \<longrightarrow>
      get_provider self w provider_name = Inl (ValueError (''Unknown provider: '' @ n)))
   \<and> (\<forall>p. providers self n = Some p \<and> \<not> is_available w p \<longrightarrow>
      get_provider self w provider_name =
        Inl (ValueError (''Provider '' @ n @ '' is not available (missing API key)'')))
   \<and> (\<forall>p. providers self n = Some p \<and> is_available w p \<longrightarrow>
      get_provider self w provider_name = Inr p
      \<and> resolve_provider self w provider_name auto_fallback = Inr p)
   \<and> (\<forall>e. get_provider self w provider_name = Inl e \<longrightarrow>
        (\<not> auto_fallback \<longrightarrow> resolve_provider self w provider_name auto_fallback = Inl e)
      \<and> (auto_fallback \<and> is_available w other \<longrightarrow>
            resolve_provider self w provider_name auto_fallback = Inr other)
      \<and> (auto_fallback \<and> \<not> is_available w other \<longrightarrow>
            resolve_provider self w provider_name auto_fallback
              = Inl (ValueError ''No ML providers are available'')))
   \<and> (\<forall>e st1. validation_gate self w st code validate_input = (None, st1)
        \<and> resolve_provider self w provider_name auto_fallback = Inl e \<longrightarrow>
        explain self w st code provider_name auto_fallback stream_callback validate_input
          = (Inl e, st1))"
proof (intro conjI allI impI)
  assume "providers self n = None"
  then show "get_provider self w provider_name = Inl (ValueError (''Unknown provider: '' @ n))"
    using assms(1) by (simp add: get_provider_def)
next
  fix p assume "providers self n = Some p \<and> \<not> is_available w p"
  then show "get_provider self w provider_name =
        Inl (ValueError (''Provider '' @ n @ '' is not available (missing API key)''))"
    using assms(1) by (simp add: get_provider_def)
next
  fix p assume a: "providers self n = Some p \<and> is_available w p"
  then show g: "get_provider self w provider_name = Inr p"
    using assms(1) by (simp add: get_provider_def)
  then show "resolve_provider self w provider_name auto_fallback = Inr p"
    by (simp add: resolve_provider_def)
next
  fix e assume e: "get_provider self w provider_name = Inl e" and "\<not> auto_fallback"
  then show "resolve_provider self w provider_name auto_fallback = Inl e"
    by (simp add: resolve_provider_def)
next
  fix e assume e: "get_provider self w provider_name = Inl e"
    and "auto_fallback \<and> is_available w other"
  then show "resolve_provider self w provider_name auto_fallback = Inr other"
    using get_provider_error [OF e] assms
    by (simp add: resolve_provider_def get_fallback_provider_cases)
next
  fix e assume e: "get_provider self w provider_name = Inl e"
    and "auto_fallback \<and> \<not> is_available w other"
  then show "resolve_provider self w provider_name auto_fallback
              = Inl (ValueError ''No ML providers are available'')"
    using get_provider_error [OF e] assms
    by (simp add: resolve_provider_def get_fallback_provider_cases)
next
  fix e st1
  assume "validation_gate self w st code validate_input = (None, st1)
        \<and> resolve_provider self w provider_name auto_fallback = Inl e"
  then show "explain self w st code provider_name auto_fallback stream_callback validate_input
          = (Inl e, st1)"
    by (simp add: explain.simps explain_attempt_def)
qed


lemma provider_resolution_runs:
  "get_provider explainer0 world0 (Some ''claude'') = Inl (ValueError ''Unknown provider: claude'')
   \<and> resolve_provider explainer0 world0 (Some ''claude'') True
       = Inr (GeminiProvider (gemini explainer0))
   \<and> get_provider explainer0 world_ollama_off (Some ''ollama'')
       = Inl (ValueError ''Provider ollama is not available (missing API key)'')
   \<and> resolve_provider explainer0 world_ollama_off (Some ''ollama'') False
       = Inl (ValueError ''Provider ollama is not available (missing API key)'')
   \<and> resolve_provider explainer0 world_ollama_off (Some ''ollama'') True
       = Inr (GeminiProvider (gemini explainer0))
   \<and> get_provider explainer0 world0 None = Inr (GeminiProvider (gemini explainer0))
   \<and> resolve_provider explainer_nokey world_ollama_off None True
       = Inl (ValueError ''No ML providers are available'')
   \<and> explain explainer_nokey world_ollama_off state0 ''print(1)'' None True False False
       = (Inl (ValueError ''No ML providers are available''), state0)"
proof -
  note a = provider_resolution [of "''claude''" "Some ''claude''" explainer0
      "GeminiProvider (gemini explainer0)" world0 True]
  note b = provider_resolution [of "''ollama''" "Some ''ollama''" explainer0
      "GeminiProvider (gemini explainer0)" world_ollama_off False]
  note c = provider_resolution [of "''ollama''" "Some ''ollama''" explainer0
      "GeminiProvider (gemini explainer0)" world_ollama_off True]
  note d = provider_resolution [of "''gemini''" None explainer0
      "OllamaProvider (ollama explainer0)" world0 True]
  note e = provider_resolution [of "''gemini''" None explainer_nokey
      "OllamaProvider (ollama explainer_nokey)" world_ollama_off True state0 "''print(1)''" False False]
  have 1: "get_provider explainer0 world0 (Some ''claude'') = Inl (ValueError ''Unknown provider: claude'')"
    using a by (simp add: run_defs)
  have 2: "resolve_provider explainer0 world0 (Some ''claude'') True
       = Inr (GeminiProvider (gemini explainer0))"
    using a 1 by (simp add: run_defs)
  have 3: "get_provider explainer0 world_ollama_off (Some ''ollama'')
       = Inl (ValueError ''Provider ollama is not available (missing API key)'')"
    using b by (simp add: run_defs)
  have 4: "resolve_provider explainer0 world_ollama_off (Some ''ollama'') False
       = Inl (ValueError ''Provider ollama is not available (missing API key)'')"
    using b 3 by (simp add: run_defs)
  have 5: "resolve_provider explainer0 world_ollama_off (Some ''ollama'') True
       = Inr (GeminiProvider (gemini explainer0))"
    using c 3 by (simp add: run_defs)
  have 6: "get_provider explainer0 world0 None = Inr (GeminiProvider (gemini explainer0))"
    using d by (simp add: run_defs)
  have 7: "get_provider explainer_nokey world_ollama_off None
       = Inl (ValueError ''Provider gemini is not available (missing API key)'')"
    using e by (simp add: run_defs)
  have 8: "resolve_provider explainer_nokey world_ollama_off None True
       = Inl (ValueError ''No ML providers are available'')"
    using e 7 by (simp add: run_defs)
  have 9: "explain explainer_nokey world_ollama_off state0 ''print(1)'' None True False False
       = (Inl (ValueError ''No ML providers are available''), state0)"
    using e 8 by (simp add: validation_gate_def run_defs)
  from 1 2 3 4 5 6 8 9 show ?thesis by simp
qed

text \<open>
  C7: the code does not do what the claim says for a name that is not registered. With no
  API key for Gemini and Ollama running, Ollama is the one available provider. A request
  for the unregistered name \<open>claude\<close> with \<open>auto_fallback\<close> on fails to resolve, as claimed,
  with "Unknown provider", but then only Gemini is tried as the substitute and \<open>explain\<close>
  raises "No ML providers are available", although the registered provider Ollama is
  available. A request for \<open>gemini\<close> in the same world is given Ollama.
\<close>

theorem C7_unregistered_name_not_substituted:
  "providers explainer_nokey ''claude'' = None
   \<and> list_available_providers explainer_nokey world_nokey = [''ollama'']
   \<and> get_provider explainer_nokey world_nokey (Some ''claude'')
       = Inl (ValueError ''Unknown provider: claude'')
   \<and> resolve_provider explainer_nokey world_nokey (Some ''claude'') True
       = Inl (ValueError ''No ML providers are available'')
   \<and> explain explainer_nokey world_nokey state0 ''print(12345678)'' (Some ''claude'') True
         False False
       = (Inl (ValueError ''No ML providers are available''), state0)
   \<and> resolve_provider explainer_nokey world_nokey (Some ''gemini'') True
       = Inr (OllamaProvider (ollama explainer_nokey))"
  by (simp add: explain.simps explain_defs run_defs world_defs list_available_providers_def)

section \<open>Validation: failing open\<close>

lemma validate_in_bounds:
  assumes "\<not> int (length (strip code)) < min_code_length (settings w)"
    and "\<not> int (length code) > max_code_length (settings w)"
  shows "validate_input_code self w st code =
           validate_loop self w code [''ollama'', ''gemini''] [] st"
  using assms by (simp add: validate_input_code_def)

text \<open>
  C9: for an input within the length bounds, when \<open>generate_structured\<close> raises an
  exception on every candidate (every available provider, \<open>ollama\<close> then \<open>gemini\<close>),
  validation raises nothing and returns a valid result with confidence 0.5 whose reason
  lists, after "Validation check skipped due to errors: ", the entries
  "name: message" of all candidates in that order, joined by "; ". Each candidate was called
  once, in that order.
\<close>

theorem C9_validation_fail_open:
  assumes "\<not> int (length (strip code)) < min_code_length (settings w)"
    and "\<not> int (length code) > max_code_length (settings w)"
    and "prompt = get_validation_prompt (code_sample (settings w) code)"
    and "candidates = filter (is_available w)
                        [OllamaProvider (ollama self), GeminiProvider (gemini self)]"
    and "\<forall>p \<in> set candidates. \<exists>e. is_Exception e \<and> structured_result w p prompt = Inl e"
  shows "validate_input_code self w st code =
           (Inr \<lparr>is_valid = True,
                 reason = ''Validation check skipped due to errors: ''
                          @ join ''; '' (map (\<lambda>p. name p @ '': ''
                                                 @ str (projl (structured_result w p prompt)))
                                          candidates),
                 confidence = 1 / 2\<rparr>,
            st\<lparr>trace := trace st @ map (\<lambda>p. StructuredCall (name p) prompt) candidates\<rparr>)"
proof -
  have "validate_loop self w code [''ollama'', ''gemini''] [] st =
           (Inr \<lparr>is_valid = True,
                 reason = ''Validation check skipped due to errors: ''
                          @ join ''; '' (map (\<lambda>p. name p @ '': ''
                                                 @ str (projl (structured_result w p prompt)))
                                          candidates),
                 confidence = 1 / 2\<rparr>,
            st\<lparr>trace := trace st @ map (\<lambda>p. StructuredCall (name p) prompt) candidates\<rparr>)"
    using assms(3,4,5)
    by (auto simp: providers_def generate_structured_def emit_def skipped_def)
  with assms(1,2) show ?thesis by (simp add: validate_in_bounds)
qed

text \<open>
  C10: for an input within the length bounds, when neither provider is available, no
  provider is called (the state is unchanged) and validation returns a valid result with
  confidence 0.5 and the reason "Validation check skipped due to errors: " with nothing
  after it. The validation gate of \<open>explain\<close> then lets the request through, so \<open>explain\<close>
  with validation on does exactly what it does with validation off.
\<close>

theorem C10_no_validator_available:
  assumes "\<not> int (length (strip code)) < min_code_length (settings w)"
    and "\<not> int (length code) > max_code_length (settings w)"
    and "\<not> is_available w (OllamaProvider (ollama self))"
    and "\<not> is_available w (GeminiProvider (gemini self))"
  shows "validate_input_code self w st code =
           (Inr \<lparr>is_valid = True, reason = ''Validation check skipped due to errors: '',
                 confidence = 1 / 2\<rparr>, st)
         \<and> validation_gate self w st code True = (None, st)
         \<and> explain self w st code provider_name auto_fallback stream_callback True
             = explain self w st code provider_name auto_fallback stream_callback False"
proof -
  have v: "validate_input_code self w st code =
           (Inr \<lparr>is_valid = True, reason = ''Validation check skipped due to errors: '',
                 confidence = 1 / 2\<rparr>, st)"
    using assms by (simp add: validate_in_bounds providers_def skipped_def)
  then have g: "validation_gate self w st code True = (None, st)"
    by (simp add: validation_gate_def)
  have "validation_gate self w st code False = (None, st)"
    by (simp add: validation_gate_def)
  with g have "explain_attempt self w st code provider_name auto_fallback stream_callback True
      = explain_attempt self w st code provider_name auto_fallback stream_callback False"
    by (simp add: explain_attempt_def)
  then have "explain self w st code provider_name auto_fallback stream_callback True
             = explain self w st code provider_name auto_fallback stream_callback False"
    by (simp add: explain.simps [of _ _ _ _ _ _ _ True] explain.simps [of _ _ _ _ _ _ _ False])
  with v g show ?thesis by simp
qed


theorem C9_validation_fail_open_witness:
  "fst (validate_input_code explainer0 world_validators_down state0 ''print(12345678)'') =
     Inr \<lparr>is_valid = True,
          reason = ''Validation check skipped due to errors: ''
                   @ ''ollama: Ollama structured generation error: [Errno 111] Connection refused''
                   @ ''; ''
                   @ ''gemini: Gemini structured generation error: 503 service unavailable'',
          confidence = 1 / 2\<rparr>"
proof -
  have "validate_input_code explainer0 world_validators_down state0 ''print(12345678)'' =
           (Inr \<lparr>is_valid = True,
                 reason = ''Validation check skipped due to errors: ''
                          @ join ''; '' (map (\<lambda>p. name p @ '': ''
                                @ str (projl (structured_result world_validators_down p
                                   (get_validation_prompt
                                      (code_sample (settings world_validators_down)
                                         ''print(12345678)'')))))
                             [OllamaProvider (ollama explainer0), GeminiProvider (gemini explainer0)]),
                 confidence = 1 / 2\<rparr>,
            state0\<lparr>trace := trace state0 @ map (\<lambda>p. StructuredCall (name p)
                 (get_validation_prompt
                    (code_sample (settings world_validators_down) ''print(12345678)'')))
                 [OllamaProvider (ollama explainer0), GeminiProvider (gemini explainer0)]\<rparr>)"
    by (rule C9_validation_fail_open)
       (simp_all add: run_defs world_validators_down_def strip_def isspace_def whitespace_def
          structured_result_def chat_down_def content_down_def)
  then show ?thesis
    by (simp add: run_defs world_validators_down_def structured_result_def chat_down_def
          content_down_def)
qed

theorem C10_no_validator_available_witness:
  "validate_input_code explainer_nokey world_ollama_off state0 ''print(12345678)'' =
     (Inr \<lparr>is_valid = True, reason = ''Validation check skipped due to errors: '',
           confidence = 1 / 2\<rparr>, state0)
   \<and> explain explainer_nokey world_ollama_off state0 ''print(12345678)'' None True False True
     = explain explainer_nokey world_ollama_off state0 ''print(12345678)'' None True False False"
  using C10_no_validator_available [of "''print(12345678)''" world_ollama_off explainer_nokey
      state0 None True False]
  by (simp add: run_defs strip_def isspace_def whitespace_def)

section \<open>Streaming\<close>

lemma sink_calls_append: "sink_calls (xs @ ys) = sink_calls xs @ sink_calls ys"
  by (induction xs rule: sink_calls.induct) simp_all

lemma sink_calls_forwarded: "sink_calls (forwarded n xs) = filter (\<lambda>x. x \<noteq> []) xs"
  by (induction xs) (simp_all add: sink_calls_append)

text \<open>
  A final chunk without a token count: the sum raises, and the handler of
  \<open>_invoke_model\<close> wraps the exception.
\<close>

lemma ollama_missing_count:
  "add_counts None (Some 8)
     = Inl (TypeError (''unsupported operand type(s) for +: '' @ [CHR 0x27] @ ''NoneType''
                       @ [CHR 0x27] @ '' and '' @ [CHR 0x27] @ ''int'' @ [CHR 0x27]))"
  "ollama_classify p (TypeError (''unsupported operand type(s) for +: '' @ [CHR 0x27]
        @ ''NoneType'' @ [CHR 0x27] @ '' and '' @ [CHR 0x27] @ ''int'' @ [CHR 0x27]))
     = ProviderError (''Ollama error: unsupported operand type(s) for +: '' @ [CHR 0x27]
        @ ''NoneType'' @ [CHR 0x27] @ '' and '' @ [CHR 0x27] @ ''int'' @ [CHR 0x27])"
  by (simp_all add: add_counts_def type_name_def ollama_classify_def lower_def lower_char_def)

lemma ollama_step_chunk:
  "\<exists>err ftt' m' st'.
     ollama_step w cb c (ftt, expl, m, st) = (err, ftt', expl @ fragment (content c), m', st')
     \<and> trace st' = trace st @ (if cb \<and> fragment (content c) \<noteq> []
                               then [SinkCall (fragment (content c))] else [])
     \<and> (err \<noteq> None) = incomplete_counts c"
  by (auto simp: ollama_step_def add_counts_def incomplete_counts_def fragment_def
        truthy_str_def time_time_def emit_def split: option.splits)

lemma ollama_loop_trace:
  "\<exists>r m' st'.
     ollama_loop w True items (ftt, expl, m, st) = (r, m', st')
     \<and> trace st' = trace st
          @ forwarded ''ollama'' (map (fragment \<circ> content) (ollama_handled items))
          @ (if ollama_cut items then [] else [Fetch ''ollama''])
     \<and> (\<forall>x. r = Inr x \<longrightarrow>
            x = expl @ concat (map (fragment \<circ> content) (ollama_handled items)))
     \<and> (ollama_completes items \<longrightarrow>
            r = Inr (expl @ concat (map (fragment \<circ> content) (ollama_handled items))))"
proof (induction items arbitrary: ftt expl m st)
  case Nil
  show ?case by (simp add: emit_def)
next
  case (Cons i items)
  show ?case
  proof (cases i)
    case (Raises e)
    then show ?thesis by (simp add: emit_def)
  next
    case (Chunk c)
    obtain err ftt1 m1 st1 where
      s: "ollama_step w True c (ftt, expl, m, emit (Fetch ''ollama'') st)
            = (err, ftt1, expl @ fragment (content c), m1, st1)"
      and t: "trace st1 = trace (emit (Fetch ''ollama'') st)
            @ (if True \<and> fragment (content c) \<noteq> [] then [SinkCall (fragment (content c))]
               else [])"
      and e: "(err \<noteq> None) = incomplete_counts c"
      using ollama_step_chunk [of w True c ftt expl m "emit (Fetch ''ollama'') st"] by blast
    show ?thesis
    proof (cases err)
      case (Some e')
      with Chunk s t e show ?thesis by (auto simp: emit_def)
    next
      case None
      with e have ok: "\<not> incomplete_counts c" by simp
      from Cons.IH [of ftt1 "expl @ fragment (content c)" m1 st1] Chunk s t None ok
      show ?thesis by (auto simp: emit_def)
    qed
  qed
qed

lemma ollama_streaming:
  assumes "ollama_chat_stream w (provider_model p) (full_prompt prompt code) = Inr items"
    and "xs = map (fragment \<circ> content) (ollama_handled items)"
  shows "\<exists>r m' st'.
           ollama_invoke_model w st p prompt code m True = (r, m', st')
           \<and> trace st' = trace st
                @ StreamOpen ''ollama'' (full_prompt prompt code) # forwarded ''ollama'' xs
                @ (if ollama_cut items then [] else [Fetch ''ollama''])
           \<and> (\<forall>x. r = Inr x \<longrightarrow> x = concat xs)
           \<and> (ollama_completes items \<and> concat xs \<noteq> [] \<longrightarrow> r = Inr (concat xs))"
proof -
  obtain r1 m' st' where
    l: "ollama_loop w True items
          (None, [], m, emit (StreamOpen ''ollama'' (full_prompt prompt code)) st)
        = (r1, m', st')"
    and t: "trace st' = trace (emit (StreamOpen ''ollama'' (full_prompt prompt code)) st)
              @ forwarded ''ollama'' (map (fragment \<circ> content) (ollama_handled items))
              @ (if ollama_cut items then [] else [Fetch ''ollama''])"
    and v: "\<forall>x. r1 = Inr x \<longrightarrow>
              x = [] @ concat (map (fragment \<circ> content) (ollama_handled items))"
    and c: "ollama_completes items \<longrightarrow>
              r1 = Inr ([] @ concat (map (fragment \<circ> content) (ollama_handled items)))"
    using ollama_loop_trace [of w items None "[]" m
        "emit (StreamOpen ''ollama'' (full_prompt prompt code)) st"] by blast
  show ?thesis
  proof (cases r1)
    case (Inl e)
    with assms l t c show ?thesis
      by (auto simp: ollama_invoke_model_def ollama_try_def emit_def)
  next
    case (Inr x)
    with assms l t v c show ?thesis
      by (auto simp: ollama_invoke_model_def ollama_try_def emit_def)
  qed
qed


lemma gemini_step_chunk:
  "\<exists>ftt' m' st'.
     gemini_step w cb c (ftt, expl, fc, m, st)
       = (ftt', expl @ fragment (chunk_text c), Some c, m', st')
     \<and> trace st' = trace st @ (if cb \<and> fragment (chunk_text c) \<noteq> []
                               then [SinkCall (fragment (chunk_text c))] else [])"
  by (auto simp: gemini_step_def fragment_def truthy_str_def time_time_def emit_def
           split: option.splits)

lemma gemini_loop_trace:
  "\<exists>r m' st'.
     gemini_loop w True items (ftt, expl, fc, m, st) = (r, m', st')
     \<and> trace st' = trace st
          @ forwarded ''gemini'' (map (fragment \<circ> chunk_text) (received items))
          @ [Fetch ''gemini'']
     \<and> (\<forall>x fc'. r = Inr (x, fc') \<longrightarrow>
            x = expl @ concat (map (fragment \<circ> chunk_text) (received items)))
     \<and> (runs_to_end items \<longrightarrow>
            (\<exists>fc'. r = Inr (expl @ concat (map (fragment \<circ> chunk_text) (received items)),
                            fc')))"
proof (induction items arbitrary: ftt expl fc m st)
  case Nil
  show ?case by (simp add: emit_def)
next
  case (Cons i items)
  show ?case
  proof (cases i)
    case (Raises e)
    then show ?thesis by (simp add: emit_def)
  next
    case (Chunk c)
    obtain ftt1 m1 st1 where
      s: "gemini_step w True c (ftt, expl, fc, m, emit (Fetch ''gemini'') st)
            = (ftt1, expl @ fragment (chunk_text c), Some c, m1, st1)"
      and t: "trace st1 = trace (emit (Fetch ''gemini'') st)
            @ (if True \<and> fragment (chunk_text c) \<noteq> []
               then [SinkCall (fragment (chunk_text c))] else [])"
      using gemini_step_chunk [of w True c ftt expl fc m "emit (Fetch ''gemini'') st"] by blast
    from Cons.IH [of ftt1 "expl @ fragment (chunk_text c)" "Some c" m1 st1] Chunk s t
    show ?thesis by (auto simp: emit_def)
  qed
qed

lemma gemini_streaming:
  assumes "truthy_str (api_key p)"
    and "gemini_generate_content_stream w (provider_model p) (full_prompt prompt code)
             = Inr items"
    and "xs = map (fragment \<circ> chunk_text) (received items)"
  shows "\<exists>r m' st'.
           gemini_invoke_model w st p prompt code m True = (r, m', st')
           \<and> trace st' = trace st
                @ StreamOpen ''gemini'' (full_prompt prompt code) # forwarded ''gemini'' xs
                @ [Fetch ''gemini'']
           \<and> (\<forall>x. r = Inr x \<longrightarrow> x = concat xs)
           \<and> (runs_to_end items \<and> concat xs \<noteq> [] \<longrightarrow> r = Inr (concat xs))"
proof -
  obtain r1 m' st' where
    l: "gemini_loop w True items
          (None, [], None, m, emit (StreamOpen ''gemini'' (full_prompt prompt code)) st)
        = (r1, m', st')"
    and t: "trace st' = trace (emit (StreamOpen ''gemini'' (full_prompt prompt code)) st)
              @ forwarded ''gemini'' (map (fragment \<circ> chunk_text) (received items))
              @ [Fetch ''gemini'']"
    and v: "\<forall>x fc'. r1 = Inr (x, fc') \<longrightarrow>
              x = [] @ concat (map (fragment \<circ> chunk_text) (received items))"
    and c: "runs_to_end items \<longrightarrow>
              (\<exists>fc'. r1 = Inr ([] @ concat (map (fragment \<circ> chunk_text) (received items)),
                               fc'))"
    using gemini_loop_trace [of w items None "[]" None m
        "emit (StreamOpen ''gemini'' (full_prompt prompt code)) st"] by blast
  show ?thesis
  proof (cases r1)
    case (Inl e)
    with assms l t c show ?thesis
      by (auto simp: gemini_invoke_model_def gemini_try_def emit_def)
  next
    case (Inr y)
    obtain x fc' where y: "y = (x, fc')" by (cases y)
    with Inr assms l t v c show ?thesis
      by (auto simp: gemini_invoke_model_def gemini_try_def emit_def)
  qed
qed


text \<open>
  C5 (amended): take a streamed generation with a callback supplied, and the chunks the
  backend's stream delivers before it ends or breaks (for Ollama, up to and including a
  final chunk that lacks a token count, where the generation raises). The events of the
  generation are the request to the backend and then, for each of these chunks in order,
  the request for it followed at once, when its text is non-empty, by the call of the
  callback with that text. So each fragment is handed on before the next one is asked
  for, the callback receives exactly the non-empty fragments in order, also when the
  stream breaks. Whenever the generation returns, \<open>_invoke_model\<close> returns the
  concatenation of the fragments and \<open>explain_code\<close> returns that concatenation with leading
  and trailing whitespace removed; and it does return when the stream runs to its end (with
  the token counts on Ollama's final chunk) and some fragment is non-empty. This holds for
  both providers.
\<close>

theorem C5_streaming_order:
  "(\<forall>items xs. ollama_chat_stream w (provider_model p) (full_prompt get_explanation_prompt code)
               = Inr items
             \<and> xs = map (fragment \<circ> content) (ollama_handled items) \<longrightarrow>
      (\<exists>r m' st'.
         explain_code w st (OllamaProvider p) code m True = (r, m', st')
         \<and> trace st' = trace st
              @ StreamOpen ''ollama'' (full_prompt get_explanation_prompt code)
                # forwarded ''ollama'' xs @ (if ollama_cut items then [] else [Fetch ''ollama''])
         \<and> sink_calls (StreamOpen ''ollama'' (full_prompt get_explanation_prompt code)
                         # forwarded ''ollama'' xs @ (if ollama_cut items then [] else [Fetch ''ollama'']))
             = filter (\<lambda>x. x \<noteq> []) xs
         \<and> (\<forall>x. r = Inr x \<longrightarrow> x = strip (concat xs))
         \<and> (\<forall>x. fst (invoke_model w st (OllamaProvider p) get_explanation_prompt code
                         (m\<lparr>model := provider_model p, model_provider := ''ollama''\<rparr>) True)
                   = Inr x \<longrightarrow> x = concat xs)
         \<and> (ollama_completes items \<and> concat xs \<noteq> [] \<longrightarrow>
               r = Inr (strip (concat xs))
               \<and> fst (invoke_model w st (OllamaProvider p) get_explanation_prompt code
                         (m\<lparr>model := provider_model p, model_provider := ''ollama''\<rparr>) True)
                   = Inr (concat xs))))
   \<and> (\<forall>items xs. truthy_str (api_key p)
             \<and> gemini_generate_content_stream w (provider_model p)
                  (full_prompt get_explanation_prompt code) = Inr items
             \<and> xs = map (fragment \<circ> chunk_text) (received items) \<longrightarrow>
      (\<exists>r m' st'.
         explain_code w st (GeminiProvider p) code m True = (r, m', st')
         \<and> trace st' = trace st
              @ StreamOpen ''gemini'' (full_prompt get_explanation_prompt code)
                # forwarded ''gemini'' xs @ [Fetch ''gemini'']
         \<and> sink_calls (StreamOpen ''gemini'' (full_prompt get_explanation_prompt code)
                         # forwarded ''gemini'' xs @ [Fetch ''gemini''])
             = filter (\<lambda>x. x \<noteq> []) xs
         \<and> (\<forall>x. r = Inr x \<longrightarrow> x = strip (concat xs))
         \<and> (\<forall>x. fst (invoke_model w st (GeminiProvider p) get_explanation_prompt code
                         (m\<lparr>model := provider_model p, model_provider := ''gemini''\<rparr>) True)
                   = Inr x \<longrightarrow> x = concat xs)
         \<and> (runs_to_end items \<and> concat xs \<noteq> [] \<longrightarrow>
               r = Inr (strip (concat xs))
               \<and> fst (invoke_model w st (GeminiProvider p) get_explanation_prompt code
                         (m\<lparr>model := provider_model p, model_provider := ''gemini''\<rparr>) True)
                   = Inr (concat xs))))"
proof (intro conjI allI impI)
  fix items xs
  assume a: "ollama_chat_stream w (provider_model p) (full_prompt get_explanation_prompt code)
               = Inr items
             \<and> xs = map (fragment \<circ> content) (ollama_handled items)"
  then obtain r m' st' where
    i: "ollama_invoke_model w st p get_explanation_prompt code
          (m\<lparr>model := provider_model p, model_provider := ''ollama''\<rparr>) True = (r, m', st')"
    and t: "trace st' = trace st
              @ StreamOpen ''ollama'' (full_prompt get_explanation_prompt code)
                # forwarded ''ollama'' xs @ (if ollama_cut items then [] else [Fetch ''ollama''])"
    and v: "\<forall>x. r = Inr x \<longrightarrow> x = concat xs"
    and c: "ollama_completes items \<and> concat xs \<noteq> [] \<longrightarrow> r = Inr (concat xs)"
    using ollama_streaming [of w p get_explanation_prompt code items xs st
        "m\<lparr>model := provider_model p, model_provider := ''ollama''\<rparr>"] by blast
  show "(\<exists>r m' st'.
         explain_code w st (OllamaProvider p) code m True = (r, m', st')
         \<and> trace st' = trace st
              @ StreamOpen ''ollama'' (full_prompt get_explanation_prompt code)
                # forwarded ''ollama'' xs @ (if ollama_cut items then [] else [Fetch ''ollama''])
         \<and> sink_calls (StreamOpen ''ollama'' (full_prompt get_explanation_prompt code)
                         # forwarded ''ollama'' xs @ (if ollama_cut items then [] else [Fetch ''ollama'']))
             = filter (\<lambda>x. x \<noteq> []) xs
         \<and> (\<forall>x. r = Inr x \<longrightarrow> x = strip (concat xs))
         \<and> (\<forall>x. fst (invoke_model w st (OllamaProvider p) get_explanation_prompt code
                         (m\<lparr>model := provider_model p, model_provider := ''ollama''\<rparr>) True)
                   = Inr x \<longrightarrow> x = concat xs)
         \<and> (ollama_completes items \<and> concat xs \<noteq> [] \<longrightarrow>
               r = Inr (strip (concat xs))
               \<and> fst (invoke_model w st (OllamaProvider p) get_explanation_prompt code
                         (m\<lparr>model := provider_model p, model_provider := ''ollama''\<rparr>) True)
                   = Inr (concat xs)))"
  proof (cases r)
    case (Inl e)
    with i t v c show ?thesis
      by (simp add: explain_code_def model_of_def sink_calls_append sink_calls_forwarded)
  next
    case (Inr x)
    with i t v c show ?thesis
      by (simp add: explain_code_def model_of_def sink_calls_append sink_calls_forwarded)
  qed
next
  fix items xs
  assume a: "truthy_str (api_key p)
             \<and> gemini_generate_content_stream w (provider_model p)
                  (full_prompt get_explanation_prompt code) = Inr items
             \<and> xs = map (fragment \<circ> chunk_text) (received items)"
  then obtain r m' st' where
    i: "gemini_invoke_model w st p get_explanation_prompt code
          (m\<lparr>model := provider_model p, model_provider := ''gemini''\<rparr>) True = (r, m', st')"
    and t: "trace st' = trace st
              @ StreamOpen ''gemini'' (full_prompt get_explanation_prompt code)
                # forwarded ''gemini'' xs @ [Fetch ''gemini'']"
    and v: "\<forall>x. r = Inr x \<longrightarrow> x = concat xs"
    and c: "runs_to_end items \<and> concat xs \<noteq> [] \<longrightarrow> r = Inr (concat xs)"
    using gemini_streaming [of p w get_explanation_prompt code items xs st
        "m\<lparr>model := provider_model p, model_provider := ''gemini''\<rparr>"] by blast
  show "(\<exists>r m' st'.
         explain_code w st (GeminiProvider p) code m True = (r, m', st')
         \<and> trace st' = trace st
              @ StreamOpen ''gemini'' (full_prompt get_explanation_prompt code)
                # forwarded ''gemini'' xs @ [Fetch ''gemini'']
         \<and> sink_calls (StreamOpen ''gemini'' (full_prompt get_explanation_prompt code)
                         # forwarded ''gemini'' xs @ [Fetch ''gemini''])
             = filter (\<lambda>x. x \<noteq> []) xs
         \<and> (\<forall>x. r = Inr x \<longrightarrow> x = strip (concat xs))
         \<and> (\<forall>x. fst (invoke_model w st (GeminiProvider p) get_explanation_prompt code
                         (m\<lparr>model := provider_model p, model_provider := ''gemini''\<rparr>) True)
                   = Inr x \<longrightarrow> x = concat xs)
         \<and> (runs_to_end items \<and> concat xs \<noteq> [] \<longrightarrow>
               r = Inr (strip (concat xs))
               \<and> fst (invoke_model w st (GeminiProvider p) get_explanation_prompt code
                         (m\<lparr>model := provider_model p, model_provider := ''gemini''\<rparr>) True)
                   = Inr (concat xs)))"
  proof (cases r)
    case (Inl e)
    with i t v c show ?thesis
      by (simp add: explain_code_def model_of_def sink_calls_append sink_calls_forwarded)
  next
    case (Inr x)
    with i t v c show ?thesis
      by (simp add: explain_code_def model_of_def sink_calls_append sink_calls_forwarded)
  qed
qed


theorem C5_streaming_order_witness:
  "fst (explain_code world_hello state0 (OllamaProvider (ollama explainer0)) ''print(12345678)''
          (new_metrics (OllamaProvider (ollama explainer0)) 0) True) = Inr ''Hello world''
   \<and> sink_calls (trace (snd (snd (explain_code world_hello state0
          (OllamaProvider (ollama explainer0)) ''print(12345678)''
          (new_metrics (OllamaProvider (ollama explainer0)) 0) True))))
       = [''Hello'', '' world'']
   \<and> sink_calls (trace (snd (snd (explain_code world_broken state0
          (OllamaProvider (ollama explainer0)) ''print(12345678)''
          (new_metrics (OllamaProvider (ollama explainer0)) 0) True))))
       = [''Hello'']"
proof -
  let ?hello = "[Chunk \<lparr>content = Some ''Hello'', chunk_done = False,
                         prompt_eval_count = None, eval_count = None\<rparr>,
                 Chunk \<lparr>content = Some '' world'', chunk_done = True,
                         prompt_eval_count = Some 12, eval_count = Some 8\<rparr>]"
  let ?broken = "[Chunk \<lparr>content = Some ''Hello'', chunk_done = False,
                          prompt_eval_count = None, eval_count = None\<rparr>,
                  Raises (OtherException ''peer closed connection'')]"
  have h: "ollama_chat_stream world_hello (provider_model (ollama explainer0))
             (full_prompt get_explanation_prompt ''print(12345678)'') = Inr ?hello
           \<and> [''Hello'', '' world''] = map (fragment \<circ> content) (ollama_handled ?hello)"
    by (simp add: world_hello_def world0_def hello_world_stream_def fragment_def
          incomplete_counts_def)
  have c: "ollama_completes ?hello \<and> \<not> ollama_cut ?hello
           \<and> concat [''Hello'', '' world''] \<noteq> []"
    by (simp add: incomplete_counts_def)
  note hello = C5_streaming_order [where st = state0
      and m = "new_metrics (OllamaProvider (ollama explainer0)) 0", THEN conjunct1, rule_format,
      OF h]
  from hello have 1: "fst (explain_code world_hello state0 (OllamaProvider (ollama explainer0))
          ''print(12345678)'' (new_metrics (OllamaProvider (ollama explainer0)) 0) True)
        = Inr ''Hello world''
      \<and> sink_calls (trace (snd (snd (explain_code world_hello state0
          (OllamaProvider (ollama explainer0)) ''print(12345678)''
          (new_metrics (OllamaProvider (ollama explainer0)) 0) True))))
       = [''Hello'', '' world'']"
  proof (elim exE conjE)
    fix r m' st'
    assume e: "explain_code world_hello state0 (OllamaProvider (ollama explainer0))
                 ''print(12345678)'' (new_metrics (OllamaProvider (ollama explainer0)) 0) True
               = (r, m', st')"
      and t: "trace st' = trace state0
                @ StreamOpen ''ollama'' (full_prompt get_explanation_prompt ''print(12345678)'')
                  # forwarded ''ollama'' [''Hello'', '' world'']
                @ (if ollama_cut ?hello then [] else [Fetch ''ollama''])"
      and p: "ollama_completes ?hello \<and> concat [''Hello'', '' world''] \<noteq> [] \<longrightarrow>
                r = Inr (strip (concat [''Hello'', '' world'']))
                \<and> fst (invoke_model world_hello state0 (OllamaProvider (ollama explainer0))
                         get_explanation_prompt ''print(12345678)''
                         (new_metrics (OllamaProvider (ollama explainer0)) 0
                            \<lparr>model := provider_model (ollama explainer0),
                             model_provider := ''ollama''\<rparr>) True)
                    = Inr (concat [''Hello'', '' world''])"
    from p c have "r = Inr ''Hello world''"
      by (simp add: strip_def isspace_def whitespace_def)
    moreover from t have "sink_calls (trace st') = [''Hello'', '' world'']"
      by (simp add: state0_def incomplete_counts_def)
    ultimately show ?thesis using e by simp
  qed
  have b: "ollama_chat_stream world_broken (provider_model (ollama explainer0))
             (full_prompt get_explanation_prompt ''print(12345678)'') = Inr ?broken
           \<and> [''Hello''] = map (fragment \<circ> content) (ollama_handled ?broken)"
    by (simp add: world_broken_def world0_def broken_stream_def fragment_def
          incomplete_counts_def)
  note broken = C5_streaming_order [where st = state0
      and m = "new_metrics (OllamaProvider (ollama explainer0)) 0", THEN conjunct1, rule_format,
      OF b]
  from broken have 2: "sink_calls (trace (snd (snd (explain_code world_broken state0
          (OllamaProvider (ollama explainer0)) ''print(12345678)''
          (new_metrics (OllamaProvider (ollama explainer0)) 0) True))))
       = [''Hello'']"
  proof (elim exE conjE)
    fix r m' st'
    assume e: "explain_code world_broken state0 (OllamaProvider (ollama explainer0))
                 ''print(12345678)'' (new_metrics (OllamaProvider (ollama explainer0)) 0) True
               = (r, m', st')"
      and t: "trace st' = trace state0
                @ StreamOpen ''ollama'' (full_prompt get_explanation_prompt ''print(12345678)'')
                  # forwarded ''ollama'' [''Hello'']
                @ (if ollama_cut ?broken then [] else [Fetch ''ollama''])"
    from t have "sink_calls (trace st') = [''Hello'']"
      by (simp add: state0_def incomplete_counts_def)
    then show ?thesis using e by simp
  qed
  from 1 2 show ?thesis by simp
qed

text \<open>
  C5, as the specification states it, fails: \<open>explain_code\<close> strips the text it returns.
  For the fragments "Hello" and " world" followed by a line break, the callback receives
  both as they are, and the explanation returned is "Hello world", which is not their
  concatenation.
\<close>

theorem C5_streaming_order_counterexample:
  "fst (explain_code world0 state0 (OllamaProvider (ollama explainer0)) ''print(12345678)''
          (new_metrics (OllamaProvider (ollama explainer0)) 0) True) = Inr ''Hello world''
   \<and> sink_calls (trace (snd (snd (explain_code world0 state0
          (OllamaProvider (ollama explainer0)) ''print(12345678)''
          (new_metrics (OllamaProvider (ollama explainer0)) 0) True))))
       = [''Hello'', '' world'' @ newline]
   \<and> concat [''Hello'', '' world'' @ newline] \<noteq> ''Hello world''"
  by (simp add: stream_defs run_defs hello_stream_def strip_def isspace_def whitespace_def
        newline_def)

section \<open>Effects on the cache and on the trace\<close>

lemma stream_opens_append:
  "stream_opens n (xs @ ys) = stream_opens n xs + stream_opens n ys"
  by (induction n xs rule: stream_opens.induct) simp_all

lemma unchanged_refl: "unchanged st st"
  by (simp add: unchanged_def)

lemma unchanged_trans: "unchanged a b \<Longrightarrow> unchanged b c \<Longrightarrow> unchanged a c"
  by (simp add: unchanged_def)

lemma unchanged_time: "time_time w st = (t, st') \<Longrightarrow> unchanged st st'"
  by (auto simp: unchanged_def time_time_def)

lemma unchanged_emit:
  "unchanged st (emit (Fetch k) st)"
  "unchanged st (emit (SinkCall x) st)"
  "unchanged st (emit (StructuredCall k prompt) st)"
  by (simp_all add: unchanged_def emit_def stream_opens_append)

lemma ollama_step_unchanged:
  assumes "ollama_step w cb c (ftt, expl, m, st) = (err, ftt', expl', m', st')"
  shows "unchanged st st' \<and> model m' = model m \<and> model_provider m' = model_provider m"
  using assms
  by (auto simp: ollama_step_def unchanged_def time_time_def emit_def stream_opens_append
           split: if_splits sum.splits)

lemma ollama_loop_unchanged:
  "ollama_loop w cb items (ftt, expl, m, st) = (r, m', st') \<Longrightarrow>
     unchanged st st' \<and> model m' = model m \<and> model_provider m' = model_provider m"
proof (induction items arbitrary: ftt expl m st)
  case Nil
  then show ?case using unchanged_emit(1) [of st "''ollama''"] by auto
next
  case (Cons i items)
  show ?case
  proof (cases i)
    case (Raises e)
    with Cons.prems show ?thesis using unchanged_emit(1) [of st "''ollama''"] by auto
  next
    case (Chunk c)
    obtain err ftt1 expl1 m1 st1 where
      s: "ollama_step w cb c (ftt, expl, m, emit (Fetch ''ollama'') st)
            = (err, ftt1, expl1, m1, st1)"
      by (metis prod_cases5)
    from ollama_step_unchanged [OF s] unchanged_emit(1) [of st "''ollama''"]
    have u: "unchanged st st1" and mm: "model m1 = model m"
      "model_provider m1 = model_provider m"
      by (auto intro: unchanged_trans)
    show ?thesis
    proof (cases err)
      case (Some e)
      with Cons.prems Chunk s have "m' = m1 \<and> st' = st1" by simp
      with u mm show ?thesis by simp
    next
      case None
      with Cons.prems Chunk s
      have "ollama_loop w cb items (ftt1, expl1, m1, st1) = (r, m', st')"
        by simp
      from Cons.IH [OF this] u mm show ?thesis by (auto intro: unchanged_trans)
    qed
  qed
qed

lemma gemini_step_unchanged:
  assumes "gemini_step w cb c (ftt, expl, fc, m, st) = (ftt', expl', fc', m', st')"
  shows "unchanged st st' \<and> model m' = model m \<and> model_provider m' = model_provider m"
  using assms
  by (auto simp: gemini_step_def unchanged_def time_time_def emit_def stream_opens_append
           split: if_splits)

lemma gemini_loop_unchanged:
  "gemini_loop w cb items (ftt, expl, fc, m, st) = (r, m', st') \<Longrightarrow>
     unchanged st st' \<and> model m' = model m \<and> model_provider m' = model_provider m"
proof (induction items arbitrary: ftt expl fc m st)
  case Nil
  then show ?case using unchanged_emit(1) [of st "''gemini''"] by auto
next
  case (Cons i items)
  show ?case
  proof (cases i)
    case (Raises e)
    with Cons.prems show ?thesis using unchanged_emit(1) [of st "''gemini''"] by auto
  next
    case (Chunk c)
    obtain ftt1 expl1 fc1 m1 st1 where
      s: "gemini_step w cb c (ftt, expl, fc, m, emit (Fetch ''gemini'') st)
            = (ftt1, expl1, fc1, m1, st1)"
      by (metis prod_cases5)
    from gemini_step_unchanged [OF s] unchanged_emit(1) [of st "''gemini''"]
    have u: "unchanged st st1" and mm: "model m1 = model m"
      "model_provider m1 = model_provider m"
      by (auto intro: unchanged_trans)
    from Cons.prems Chunk s
    have "gemini_loop w cb items (ftt1, expl1, fc1, m1, st1) = (r, m', st')"
      by simp
    from Cons.IH [OF this] u mm show ?thesis by (auto intro: unchanged_trans)
  qed
qed


lemma opened_emit:
  "cache (emit (StreamOpen k prompt) st) = cache st"
  "stream_opens n (trace (emit (StreamOpen k prompt) st))
     = stream_opens n (trace st) + (if k = n then 1 else 0)"
  by (simp_all add: emit_def stream_opens_append)

lemma ollama_try_effect:
  assumes "ollama_try w st p prompt code m cb = (r, m', st')"
  shows "cache st' = cache st
         \<and> (\<forall>n. stream_opens n (trace st')
                  = stream_opens n (trace st) + (if n = ''ollama'' then 1 else 0))
         \<and> model m' = model m \<and> model_provider m' = model_provider m"
proof (cases "ollama_chat_stream w (provider_model p) (full_prompt prompt code)")
  case (Inl e)
  with assms show ?thesis by (auto simp: ollama_try_def opened_emit)
next
  case (Inr stream)
  obtain r1 m1 st1 where
    l: "ollama_loop w cb stream
          (None, [], m, emit (StreamOpen ''ollama'' (full_prompt prompt code)) st)
        = (r1, m1, st1)"
    by (metis prod_cases3)
  from ollama_loop_unchanged [OF l]
  have 1: "cache st1 = cache st"
    and 2: "\<forall>n. stream_opens n (trace st1)
                  = stream_opens n (trace st) + (if n = ''ollama'' then 1 else 0)"
    and 3: "model m1 = model m" "model_provider m1 = model_provider m"
    by (auto simp: unchanged_def opened_emit)
  from assms Inr l have "st' = st1 \<and> m' = m1"
    by (auto simp: ollama_try_def split: sum.splits if_splits)
  with 1 2 3 show ?thesis by simp
qed

lemma gemini_usage_model:
  "model (gemini_usage fc m) = model m \<and> model_provider (gemini_usage fc m) = model_provider m"
  by (simp add: gemini_usage_def split: option.splits)

lemma gemini_try_effect:
  assumes "gemini_try w st p prompt code m cb = (r, m', st')"
  shows "cache st' = cache st
         \<and> (\<forall>n. n \<noteq> ''gemini'' \<longrightarrow> stream_opens n (trace st') = stream_opens n (trace st))
         \<and> stream_opens ''gemini'' (trace st') \<le> stream_opens ''gemini'' (trace st) + 1
         \<and> model m' = model m \<and> model_provider m' = model_provider m"
proof (cases "truthy_str (api_key p)")
  case False
  with assms show ?thesis by (auto simp: gemini_try_def)
next
  case True
  show ?thesis
  proof (cases "gemini_generate_content_stream w (provider_model p) (full_prompt prompt code)")
    case (Inl e)
    with assms True show ?thesis by (auto simp: gemini_try_def opened_emit)
  next
    case (Inr stream)
    obtain r1 m1 st1 where
      l: "gemini_loop w cb stream
            (None, [], None, m, emit (StreamOpen ''gemini'' (full_prompt prompt code)) st)
          = (r1, m1, st1)"
      by (metis prod_cases3)
    from gemini_loop_unchanged [OF l]
    have 1: "cache st1 = cache st"
      and 2: "\<forall>n. stream_opens n (trace st1)
                    = stream_opens n (trace st) + (if n = ''gemini'' then 1 else 0)"
      and 3: "model m1 = model m" "model_provider m1 = model_provider m"
      by (auto simp: unchanged_def opened_emit)
    from assms True Inr l
    have "st' = st1 \<and> model m' = model m1 \<and> model_provider m' = model_provider m1"
      by (auto simp: gemini_try_def gemini_usage_model split: sum.splits if_splits prod.splits)
    with 1 2 3 show ?thesis by simp
  qed
qed

lemma explain_code_effect:
  assumes "explain_code w st p code m cb = (r, m', st')"
  shows "cache st' = cache st
         \<and> (\<forall>n. n \<noteq> name p \<longrightarrow> stream_opens n (trace st') = stream_opens n (trace st))
         \<and> stream_opens (name p) (trace st') \<le> stream_opens (name p) (trace st) + 1
         \<and> model m' = model_of p \<and> model_provider m' = name p"
proof (cases p)
  case (OllamaProvider b)
  obtain r1 m1 st1 where
    t: "ollama_try w st b get_explanation_prompt code
          (m\<lparr>model := model_of p, model_provider := name p\<rparr>) cb = (r1, m1, st1)"
    by (metis prod_cases3)
  from assms OllamaProvider t
  have "st' = st1 \<and> model m' = model m1 \<and> model_provider m' = model_provider m1"
    by (auto simp: explain_code_def ollama_invoke_model_def split: sum.splits if_splits)
  with ollama_try_effect [OF t] OllamaProvider show ?thesis by simp
next
  case (GeminiProvider b)
  obtain r1 m1 st1 where
    t: "gemini_try w st b get_explanation_prompt code
          (m\<lparr>model := model_of p, model_provider := name p\<rparr>) cb = (r1, m1, st1)"
    by (metis prod_cases3)
  from assms GeminiProvider t
  have "st' = st1 \<and> model m' = model m1 \<and> model_provider m' = model_provider m1"
    by (auto simp: explain_code_def gemini_invoke_model_def split: sum.splits if_splits)
  with gemini_try_effect [OF t] GeminiProvider show ?thesis by simp
qed


lemma validate_loop_unchanged:
  "validate_loop self w code names errs st = (r, st') \<Longrightarrow> unchanged st st'"
proof (induction names arbitrary: errs st)
  case Nil
  then show ?case by (simp add: unchanged_refl)
next
  case (Cons k names)
  show ?case
  proof (cases "providers self k")
    case None
    with Cons show ?thesis by simp
  next
    case (Some p)
    show ?thesis
    proof (cases "is_available w p")
      case False
      with Cons Some show ?thesis by simp
    next
      case True
      have u: "unchanged st (emit (StructuredCall (name p)
                 (get_validation_prompt (code_sample (settings w) code))) st)"
        by (rule unchanged_emit)
      show ?thesis
      proof (cases "structured_result w p
                      (get_validation_prompt (code_sample (settings w) code))")
        case (Inr v)
        with Cons.prems Some True u show ?thesis by (auto simp: generate_structured_def)
      next
        case (Inl e)
        show ?thesis
        proof (cases "is_Exception e")
          case False
          with Cons.prems Some True Inl u show ?thesis by (auto simp: generate_structured_def)
        next
          case e: True
          with Cons.prems Some True Inl
          have "validate_loop self w code names (errs @ [k @ '': '' @ str e])
                  (emit (StructuredCall (name p)
                     (get_validation_prompt (code_sample (settings w) code))) st) = (r, st')"
            by (simp add: generate_structured_def)
          from Cons.IH [OF this] u show ?thesis by (rule unchanged_trans [rotated])
        qed
      qed
    qed
  qed
qed

lemma validate_input_code_unchanged:
  "validate_input_code self w st code = (r, st') \<Longrightarrow> unchanged st st'"
  unfolding validate_input_code_def
  by (auto simp del: validate_loop.simps simp: unchanged_refl split: if_splits
           dest: validate_loop_unchanged)

lemma validation_gate_unchanged:
  "validation_gate self w st code vi = (r, st') \<Longrightarrow> unchanged st st'"
  by (auto simp: validation_gate_def unchanged_refl
           split: if_splits prod.splits sum.splits dest: validate_input_code_unchanged)

lemma cache_lookup_unchanged:
  "cache_lookup self w st code p cb = (ck, hit, st') \<Longrightarrow>
     unchanged st st'
     \<and> ck = (if use_cache self
             then Some (get_cache_key (sha256_hexdigest w) code (name p) (model_of p))
             else None)"
  by (auto simp: cache_lookup_def cache_get_def time_time_def emit_def unchanged_def
        stream_opens_append split: if_splits prod.splits option.splits)

lemma store_result_effect:
  assumes "store_result self w st code ck expl m = (result, st')"
  shows "(\<forall>n. stream_opens n (trace st') = stream_opens n (trace st))
         \<and> model (metrics result) = model m
         \<and> model_provider (metrics result) = model_provider m
         \<and> (cache st' = cache st
            \<or> (\<exists>k t. ck = Some k \<and> cache st' = (cache st)(k \<mapsto> (result, Some t))))"
  using assms
  by (auto simp: store_result_def cache_set_def time_time_def truthy_str_def
           split: if_splits option.splits)


lemma attempt_effect:
  assumes a: "explain_attempt self w st code pn af cb vi = (out, st')"
  shows "(\<forall>n. stream_opens n (trace st') \<le> stream_opens n (trace st) + 1)
    \<and> (\<forall>n. (\<forall>p. resolve_provider self w pn af = Inr p \<longrightarrow> n \<noteq> name p) \<longrightarrow>
            stream_opens n (trace st') = stream_opens n (trace st))
    \<and> (\<forall>p e m. out = GenerationFailed p e m \<longrightarrow>
            resolve_provider self w pn af = Inr p \<and> is_Exception e \<and> cache st' = cache st)
    \<and> (\<forall>e. out = Raised e \<longrightarrow> cache st' = cache st)
    \<and> (\<forall>r. out = Returned r \<longrightarrow>
            cache st' = cache st
            \<or> (\<exists>p t. resolve_provider self w pn af = Inr p
                  \<and> model_provider (metrics r) = name p \<and> model (metrics r) = model_of p
                  \<and> cache st' = (cache st)
                       (get_cache_key (sha256_hexdigest w) code (name p) (model_of p)
                          \<mapsto> (r, Some t))))"
proof -
  obtain g st1 where gate: "validation_gate self w st code vi = (g, st1)"
    by (metis surj_pair)
  from validation_gate_unchanged [OF gate]
  have u1: "cache st1 = cache st" "\<And>n. stream_opens n (trace st1) = stream_opens n (trace st)"
    by (simp_all add: unchanged_def)
  show ?thesis
  proof (cases g)
    case (Some e)
    with a gate have "out = Raised e \<and> st' = st1" by (simp add: explain_attempt_def)
    with u1 show ?thesis by simp
  next
    case None
    show ?thesis
    proof (cases "resolve_provider self w pn af")
      case (Inl e)
      with a gate None have "out = Raised e \<and> st' = st1" by (simp add: explain_attempt_def)
      with u1 show ?thesis by simp
    next
      case (Inr p)
      obtain ck hit st2 where look: "cache_lookup self w st1 code p cb = (ck, hit, st2)"
        by (metis prod_cases3)
      from cache_lookup_unchanged [OF look]
      have u2: "cache st2 = cache st1"
        "\<And>n. stream_opens n (trace st2) = stream_opens n (trace st1)"
        and ck: "ck = (if use_cache self
             then Some (get_cache_key (sha256_hexdigest w) code (name p) (model_of p))
             else None)"
        by (simp_all add: unchanged_def)
      show ?thesis
      proof (cases hit)
        case (Some cached)
        with a gate None Inr look have "out = Returned cached \<and> st' = st2"
          by (simp add: explain_attempt_def)
        with u1 u2 show ?thesis by simp
      next
        case miss: None
        obtain t0 st3 where t0: "time_time w st2 = (t0, st3)" by (metis surj_pair)
        from unchanged_time [OF t0]
        have u3: "cache st3 = cache st2"
          "\<And>n. stream_opens n (trace st3) = stream_opens n (trace st2)"
          by (simp_all add: unchanged_def)
        obtain r m1 st4 where
          gen: "explain_code w st3 p code (new_metrics p t0) cb = (r, m1, st4)"
          by (metis prod_cases3)
        from explain_code_effect [OF gen]
        have u4: "cache st4 = cache st3"
          "\<And>n. n \<noteq> name p \<Longrightarrow> stream_opens n (trace st4) = stream_opens n (trace st3)"
          "stream_opens (name p) (trace st4) \<le> stream_opens (name p) (trace st3) + 1"
          "model m1 = model_of p" "model_provider m1 = name p"
          by simp_all
        have le4: "\<And>n. stream_opens n (trace st4) \<le> stream_opens n (trace st) + 1"
          using u1 u2 u3 u4 by (metis le_add1 order_refl trans_le_add1)
        have eq4: "\<And>n. n \<noteq> name p \<Longrightarrow> stream_opens n (trace st4) = stream_opens n (trace st)"
          using u1 u2 u3 u4 by simp
        have c4: "cache st4 = cache st" using u1 u2 u3 u4 by simp
        show ?thesis
        proof (cases r)
          case (Inl e)
          show ?thesis
          proof (cases "is_Exception e")
            case False
            with a gate None Inr look miss t0 gen Inl have "out = Raised e \<and> st' = st4"
              by (simp add: explain_attempt_def)
            with le4 eq4 c4 Inr show ?thesis by simp
          next
            case True
            obtain t1 st5 where t1: "time_time w st4 = (t1, st5)" by (metis surj_pair)
            from unchanged_time [OF t1]
            have u5: "cache st5 = cache st4"
              "\<And>n. stream_opens n (trace st5) = stream_opens n (trace st4)"
              by (simp_all add: unchanged_def)
            from a gate None Inr look miss t0 gen Inl True t1
            have "out = GenerationFailed p e (m1\<lparr>end_time := Some t1, error := Some (str e)\<rparr>)
                  \<and> st' = st5"
              by (simp add: explain_attempt_def)
            with le4 eq4 c4 u5 Inr True show ?thesis by simp
          qed
        next
          case (Inr expl)
          obtain result st5 where
            sr: "store_result self w st4 code ck expl m1 = (result, st5)"
            by (metis surj_pair)
          from store_result_effect [OF sr]
          have u5: "\<And>n. stream_opens n (trace st5) = stream_opens n (trace st4)"
            "model (metrics result) = model m1"
            "model_provider (metrics result) = model_provider m1"
            "cache st5 = cache st4
              \<or> (\<exists>k t. ck = Some k \<and> cache st5 = (cache st4)(k \<mapsto> (result, Some t)))"
            by simp_all
          from a gate None \<open>resolve_provider self w pn af = Inr p\<close> look miss t0 gen Inr sr
          have o: "out = Returned result \<and> st' = st5"
            by (simp add: explain_attempt_def)
          from u5(4) ck c4
          have "cache st5 = cache st
                \<or> (\<exists>t. cache st5 = (cache st)
                       (get_cache_key (sha256_hexdigest w) code (name p) (model_of p)
                          \<mapsto> (result, Some t)))"
            by (auto split: if_splits)
          with o le4 eq4 u5 u4 \<open>resolve_provider self w pn af = Inr p\<close> show ?thesis by auto
        qed
      qed
    qed
  qed
qed


lemma py_or_name: "py_or (Some (name p)) d = name p"
  by (cases p) (simp_all add: py_or_def)

lemma fallback_resolves:
  assumes "get_fallback_provider self w k = Some fb"
  shows "resolve_provider self w (Some (name fb)) af = Inr fb \<and> name fb \<noteq> k
         \<and> is_available w fb"
  using assms
  by (auto simp: get_fallback_provider_def fallback_name_def providers_def resolve_provider_def
        get_provider_def py_or_def split: if_splits)

lemma explain_no_fallback:
  "explain self w st code pn False cb vi =
     (case explain_attempt self w st code pn False cb vi of
        (Returned r, st1) \<Rightarrow> (Inr r, st1)
      | (Raised e, st1) \<Rightarrow> (Inl e, st1)
      | (GenerationFailed p e m, st1) \<Rightarrow> (Inl e, st1))"
  by (simp add: explain.simps [of _ _ _ _ _ False] split: prod.splits attempt.splits)

lemma explain_retry:
  assumes "explain_attempt self w st code pn af cb vi = (GenerationFailed p e m, st1)"
  shows "explain self w st code pn af cb vi =
           (if af
            then (case get_fallback_provider self w (name p) of
                    Some fb \<Rightarrow> explain self w st1 code (Some (name fb)) False cb False
                  | None \<Rightarrow> (Inl e, st1))
            else (Inl e, st1))"
  using assms by (subst explain.simps) simp

lemma explain_returned:
  "explain_attempt self w st code pn af cb vi = (Returned r, st1) \<Longrightarrow>
     explain self w st code pn af cb vi = (Inr r, st1)"
  by (subst explain.simps) simp

lemma explain_raised:
  "explain_attempt self w st code pn af cb vi = (Raised e, st1) \<Longrightarrow>
     explain self w st code pn af cb vi = (Inl e, st1)"
  by (subst explain.simps) simp

lemma explain_opens:
  "stream_opens n (trace (snd (explain self w st code pn af cb vi)))
     \<le> stream_opens n (trace st) + 1"
proof -
  obtain out st1 where a: "explain_attempt self w st code pn af cb vi = (out, st1)"
    by (metis surj_pair)
  note e1 = attempt_effect [OF a]
  show ?thesis
  proof (cases out)
    case (Returned r)
    with a e1 show ?thesis by (simp add: explain_returned)
  next
    case (Raised e)
    with a e1 show ?thesis by (simp add: explain_raised)
  next
    case (GenerationFailed p e m)
    with e1 have res: "resolve_provider self w pn af = Inr p" by simp
    show ?thesis
    proof (cases "af \<and> get_fallback_provider self w (name p) \<noteq> None")
      case False
      with a GenerationFailed e1 show ?thesis by (auto simp: explain_retry)
    next
      case True
      then obtain fb where fb: "get_fallback_provider self w (name p) = Some fb" by auto
      note f = fallback_resolves [OF fb, of False]
      obtain out2 st2 where
        a2: "explain_attempt self w st1 code (Some (name fb)) False cb False = (out2, st2)"
        by (metis surj_pair)
      note e2 = attempt_effect [OF a2]
      from a GenerationFailed True fb a2
      have s: "snd (explain self w st code pn af cb vi) = st2"
        by (simp add: explain_retry explain_no_fallback split: attempt.splits)
      show ?thesis
      proof (cases "n = name p")
        case True
        with f have "n \<noteq> name fb" by auto
        with e2 f have "stream_opens n (trace st2) = stream_opens n (trace st1)" by simp
        moreover from e1 have "stream_opens n (trace st1) \<le> stream_opens n (trace st) + 1"
          by blast
        ultimately show ?thesis using s by simp
      next
        case False
        with e1 res have "stream_opens n (trace st1) = stream_opens n (trace st)" by simp
        moreover from e2 have "stream_opens n (trace st2) \<le> stream_opens n (trace st1) + 1"
          by blast
        ultimately show ?thesis using s by simp
      qed
    qed
  qed
qed

section \<open>Fallback\<close>

text \<open>
  C1 (amended): take a call of \<open>explain\<close> that passes the validation gate, resolves the
  provider \<open>p\<close>, misses the cache, and in which the generation of \<open>p\<close> raises an
  \<open>Exception\<close> \<open>e\<close>; \<open>st5\<close> is the state the failed attempt leaves. If \<open>auto_fallback\<close>
  is on and the other provider \<open>fb\<close> is available, the call is the call of \<open>explain\<close> on
  \<open>st5\<close> for the name of \<open>fb\<close> with \<open>auto_fallback\<close> and \<open>validate_input\<close> both off; that
  retry resolves \<open>fb\<close> and is one more pass and nothing else, so that when it fails in
  turn, what the caller gets is the retry's exception. If \<open>auto_fallback\<close> is on and the other provider is not
  available, or if \<open>auto_fallback\<close> is off, the caller gets \<open>e\<close>. In every case each backend
  receives at most one generation request during the call.
\<close>

theorem C1_fallback_retry:
  assumes gate: "validation_gate self w st code validate_input = (None, st1)"
    and res: "resolve_provider self w provider_name auto_fallback = Inr p"
    and miss: "cache_lookup self w st1 code p stream_callback = (cache_key, None, st2)"
    and t0: "time_time w st2 = (t0, st3)"
    and gen: "explain_code w st3 p code (new_metrics p t0) stream_callback = (Inl e, m1, st4)"
    and exc: "is_Exception e"
    and t1: "time_time w st4 = (t1, st5)"
  shows
    "(auto_fallback \<longrightarrow>
        (\<forall>fb. get_fallback_provider self w (name p) = Some fb \<longrightarrow>
           explain self w st code provider_name auto_fallback stream_callback validate_input
             = explain self w st5 code (Some (name fb)) False stream_callback False
           \<and> name fb \<noteq> name p
           \<and> resolve_provider self w (Some (name fb)) False = Inr fb
           \<and> (\<forall>out st6.
                 explain_attempt self w st5 code (Some (name fb)) False stream_callback False
                   = (out, st6) \<longrightarrow>
                 explain self w st code provider_name auto_fallback stream_callback
                   validate_input
                   = (case out of
                        Returned r \<Rightarrow> Inr r
                      | Raised e' \<Rightarrow> Inl e'
                      | GenerationFailed q e' m' \<Rightarrow> Inl e', st6))))
     \<and> (auto_fallback \<and> get_fallback_provider self w (name p) = None \<longrightarrow>
          explain self w st code provider_name auto_fallback stream_callback validate_input
            = (Inl e, st5))
     \<and> (\<not> auto_fallback \<longrightarrow>
          explain self w st code provider_name auto_fallback stream_callback validate_input
            = (Inl e, st5))
     \<and> (\<forall>n. stream_opens n
                (trace (snd (explain self w st code provider_name auto_fallback
                               stream_callback validate_input)))
              \<le> stream_opens n (trace st) + 1)"
proof -
  from gate res miss t0 gen exc t1
  have a: "explain_attempt self w st code provider_name auto_fallback stream_callback
             validate_input
           = (GenerationFailed p e (m1\<lparr>end_time := Some t1, error := Some (str e)\<rparr>), st5)"
    by (simp add: explain_attempt_def)
  note r = explain_retry [OF a]
  have 1: "auto_fallback \<longrightarrow>
        (\<forall>fb. get_fallback_provider self w (name p) = Some fb \<longrightarrow>
           explain self w st code provider_name auto_fallback stream_callback validate_input
             = explain self w st5 code (Some (name fb)) False stream_callback False
           \<and> name fb \<noteq> name p
           \<and> resolve_provider self w (Some (name fb)) False = Inr fb
           \<and> (\<forall>out st6.
                 explain_attempt self w st5 code (Some (name fb)) False stream_callback False
                   = (out, st6) \<longrightarrow>
                 explain self w st code provider_name auto_fallback stream_callback
                   validate_input
                   = (case out of
                        Returned r \<Rightarrow> Inr r
                      | Raised e' \<Rightarrow> Inl e'
                      | GenerationFailed q e' m' \<Rightarrow> Inl e', st6)))"
  proof (intro impI allI conjI)
    fix fb
    assume af: auto_fallback and fb: "get_fallback_provider self w (name p) = Some fb"
    with r show eq: "explain self w st code provider_name auto_fallback stream_callback
        validate_input = explain self w st5 code (Some (name fb)) False stream_callback False"
      by simp
    from fallback_resolves [OF fb] show "name fb \<noteq> name p" by simp
    from fallback_resolves [OF fb]
    show "resolve_provider self w (Some (name fb)) False = Inr fb" by simp
    fix out st6
    assume "explain_attempt self w st5 code (Some (name fb)) False stream_callback False
              = (out, st6)"
    with eq show "explain self w st code provider_name auto_fallback stream_callback
                   validate_input
                   = (case out of
                        Returned r \<Rightarrow> Inr r
                      | Raised e' \<Rightarrow> Inl e'
                      | GenerationFailed q e' m' \<Rightarrow> Inl e', st6)"
      by (simp add: explain_no_fallback split: attempt.splits)
  qed
  have 2: "auto_fallback \<and> get_fallback_provider self w (name p) = None \<longrightarrow>
          explain self w st code provider_name auto_fallback stream_callback validate_input
            = (Inl e, st5)"
  proof
    assume "auto_fallback \<and> get_fallback_provider self w (name p) = None"
    with r show "explain self w st code provider_name auto_fallback stream_callback
        validate_input = (Inl e, st5)"
      by simp
  qed
  have 3: "\<not> auto_fallback \<longrightarrow>
          explain self w st code provider_name auto_fallback stream_callback validate_input
            = (Inl e, st5)"
  proof
    assume "\<not> auto_fallback"
    with r show "explain self w st code provider_name auto_fallback stream_callback
        validate_input = (Inl e, st5)"
      by simp
  qed
  have 4: "\<forall>n. stream_opens n
                (trace (snd (explain self w st code provider_name auto_fallback
                               stream_callback validate_input)))
              \<le> stream_opens n (trace st) + 1"
    by (intro allI explain_opens)
  from 1 2 3 4 show ?thesis by blast
qed

theorem C1_fallback_retry_witness:
  "explain explainer0 world_gemini_down state0 ''print(12345678)'' None True False False
     = explain explainer0 world_gemini_down
         \<lparr>cache = Map.empty, clock = 4,
          trace = [StreamOpen ''gemini'' (full_prompt get_explanation_prompt ''print(12345678)'')]\<rparr>
         ''print(12345678)'' (Some ''ollama'') False False False
   \<and> map_sum id explanation
         (fst (explain explainer0 world_gemini_down state0 ''print(12345678)'' None True False
                 False)) = Inr ''Hello world''
   \<and> map_sum id (model_provider \<circ> metrics)
         (fst (explain explainer0 world_gemini_down state0 ''print(12345678)'' None True False
                 False)) = Inr ''ollama''"
proof -
  have gate: "validation_gate explainer0 world_gemini_down state0 ''print(12345678)'' False
                = (None, state0)"
    by (simp add: validation_gate_def)
  have res: "resolve_provider explainer0 world_gemini_down None True
               = Inr (GeminiProvider (gemini explainer0))"
    by (simp add: explain_defs run_defs world_defs)
  have miss: "cache_lookup explainer0 world_gemini_down state0 ''print(12345678)''
                (GeminiProvider (gemini explainer0)) False
              = (Some ''print(12345678)|gemini|gemini-2.5-flash'', None,
                 \<lparr>cache = Map.empty, clock = 2, trace = []\<rparr>)"
    by (simp add: explain_defs run_defs world_defs stream_defs)
  have t0: "time_time world_gemini_down \<lparr>cache = Map.empty, clock = 2, trace = []\<rparr>
              = (2, \<lparr>cache = Map.empty, clock = 3, trace = []\<rparr>)"
    by (simp add: time_time_def run_defs world_defs)
  have gen: "explain_code world_gemini_down \<lparr>cache = Map.empty, clock = 3, trace = []\<rparr>
               (GeminiProvider (gemini explainer0)) ''print(12345678)''
               (new_metrics (GeminiProvider (gemini explainer0)) 2) False
             = (Inl (ProviderError ''Gemini API error: 503 service unavailable''),
                \<lparr>model = ''gemini-2.5-flash'', model_provider = ''gemini'', start_time = 2,
                 end_time = None, time_to_first_token = None, total_tokens = None,
                 error = Some ''Gemini API error: 503 service unavailable'',
                 cache_hit = False\<rparr>,
                \<lparr>cache = Map.empty, clock = 3,
                 trace = [StreamOpen ''gemini''
                            (full_prompt get_explanation_prompt ''print(12345678)'')]\<rparr>)"
    by (simp add: explain_defs run_defs world_defs stream_defs string_defs)
  have exc: "is_Exception (ProviderError ''Gemini API error: 503 service unavailable'')"
    by simp
  have t1: "time_time world_gemini_down
              \<lparr>cache = Map.empty, clock = 3,
               trace = [StreamOpen ''gemini''
                          (full_prompt get_explanation_prompt ''print(12345678)'')]\<rparr>
            = (3, \<lparr>cache = Map.empty, clock = 4,
                   trace = [StreamOpen ''gemini''
                              (full_prompt get_explanation_prompt ''print(12345678)'')]\<rparr>)"
    by (simp add: time_time_def run_defs world_defs)
  have fb: "get_fallback_provider explainer0 world_gemini_down
              (name (GeminiProvider (gemini explainer0)))
            = Some (OllamaProvider (ollama explainer0))"
    by (simp add: explain_defs run_defs world_defs)
  from C1_fallback_retry [OF gate res miss t0 gen exc t1] fb
  have eq: "explain explainer0 world_gemini_down state0 ''print(12345678)'' None True False False
     = explain explainer0 world_gemini_down
         \<lparr>cache = Map.empty, clock = 4,
          trace = [StreamOpen ''gemini'' (full_prompt get_explanation_prompt ''print(12345678)'')]\<rparr>
         ''print(12345678)'' (Some ''ollama'') False False False"
    by simp
  then show ?thesis
    by (simp add: explain_no_fallback explain_defs run_defs world_defs stream_defs string_defs)
qed

text \<open>
  C1, as the specification states it, fails where both generations fail: with the fallback
  off the caller gets the exception of Gemini, the resolved provider (the original
  exception); with the fallback on and Ollama available the retry fails too and the caller
  gets the exception of Ollama instead.
\<close>

theorem C1_fallback_retry_counterexample:
  "fst (explain explainer0 world_both_down state0 ''print(12345678)'' None False False False)
     = Inl (ProviderError ''Gemini API error: 503 service unavailable'')
   \<and> get_fallback_provider explainer0 world_both_down ''gemini''
     = Some (OllamaProvider (ollama explainer0))
   \<and> fst (explain explainer0 world_both_down state0 ''print(12345678)'' None True False False)
     = Inl (ProviderError ''Cannot connect to Ollama server. Is it running? Try: ollama serve'')"
  by (simp add: explain.simps explain_defs stream_defs run_defs world_defs string_defs)

section \<open>When the cache is written\<close>

lemma name_cases: "name p = ''gemini'' \<or> name p = ''ollama''"
  by (cases p) simp_all

lemma keys_differ:
  assumes "inj digest" and "name p \<noteq> name q"
  shows "get_cache_key digest code (name p) (model_of p)
           \<noteq> get_cache_key digest code (name q) (model_of q)"
proof -
  have "cache_input code (name p) (model_of p) \<noteq> cache_input code (name q) (model_of q)"
    using assms(2) name_cases [of p] name_cases [of q] by (auto simp: cache_input_def)
  with assms(1) show ?thesis by (simp add: get_cache_key_def inj_eq)
qed

lemma explain_cache:
  "(\<forall>e. fst (explain self w st code pn af cb vi) = Inl e \<longrightarrow>
        cache (snd (explain self w st code pn af cb vi)) = cache st)
   \<and> (\<forall>r. fst (explain self w st code pn af cb vi) = Inr r \<longrightarrow>
        cache (snd (explain self w st code pn af cb vi)) = cache st
        \<or> (\<exists>t. cache (snd (explain self w st code pn af cb vi)) = (cache st)
               (get_cache_key (sha256_hexdigest w) code (model_provider (metrics r))
                  (model (metrics r)) \<mapsto> (r, Some t))))
   \<and> (\<forall>p e m st1. inj (sha256_hexdigest w)
          \<and> explain_attempt self w st code pn af cb vi = (GenerationFailed p e m, st1) \<longrightarrow>
        cache (snd (explain self w st code pn af cb vi))
          (get_cache_key (sha256_hexdigest w) code (name p) (model_of p))
        = cache st (get_cache_key (sha256_hexdigest w) code (name p) (model_of p)))"
proof -
  obtain out st1 where a: "explain_attempt self w st code pn af cb vi = (out, st1)"
    by (metis surj_pair)
  note e1 = attempt_effect [OF a]
  show ?thesis
  proof (cases out)
    case (Returned r)
    with a have x: "explain self w st code pn af cb vi = (Inr r, st1)"
      by (simp add: explain_returned)
    from e1 Returned
    have "cache st1 = cache st
          \<or> (\<exists>t. cache st1 = (cache st)
                 (get_cache_key (sha256_hexdigest w) code (model_provider (metrics r))
                    (model (metrics r)) \<mapsto> (r, Some t)))"
      by auto
    with x a Returned show ?thesis by simp
  next
    case (Raised e)
    with a have x: "explain self w st code pn af cb vi = (Inl e, st1)"
      by (simp add: explain_raised)
    with e1 a Raised show ?thesis by simp
  next
    case (GenerationFailed p e m)
    with e1 have c1: "cache st1 = cache st" by simp
    note r = explain_retry [OF a [unfolded GenerationFailed]]
    show ?thesis
    proof (cases "af \<and> get_fallback_provider self w (name p) \<noteq> None")
      case False
      with r have "explain self w st code pn af cb vi = (Inl e, st1)" by auto
      with c1 a GenerationFailed show ?thesis by simp
    next
      case True
      then obtain fb where fb: "get_fallback_provider self w (name p) = Some fb" by auto
      note f = fallback_resolves [OF fb, of False]
      obtain out2 st2 where
        a2: "explain_attempt self w st1 code (Some (name fb)) False cb False = (out2, st2)"
        by (metis surj_pair)
      note e2 = attempt_effect [OF a2]
      from r True fb a2
      have x: "explain self w st code pn af cb vi
                 = (case out2 of Returned r \<Rightarrow> Inr r | Raised e' \<Rightarrow> Inl e'
                    | GenerationFailed q e' m' \<Rightarrow> Inl e', st2)"
        by (simp add: explain_no_fallback split: attempt.splits)
      show ?thesis
      proof (cases out2)
        case (Returned r2)
        from e2 Returned f
        have "cache st2 = cache st1
              \<or> (\<exists>t. model_provider (metrics r2) = name fb \<and> model (metrics r2) = model_of fb
                    \<and> cache st2 = (cache st1)
                        (get_cache_key (sha256_hexdigest w) code (name fb) (model_of fb)
                           \<mapsto> (r2, Some t)))"
          by auto
        moreover have "inj (sha256_hexdigest w) \<Longrightarrow>
            get_cache_key (sha256_hexdigest w) code (name fb) (model_of fb)
              \<noteq> get_cache_key (sha256_hexdigest w) code (name p) (model_of p)"
          using f by (intro keys_differ) auto
        ultimately show ?thesis using x Returned c1 a GenerationFailed by auto
      next
        case (Raised e2')
        with e2 x c1 a GenerationFailed show ?thesis by simp
      next
        case g2: (GenerationFailed q e2' m2)
        with e2 have "cache st2 = cache st1" by simp
        with x c1 a GenerationFailed g2 show ?thesis by simp
      qed
    qed
  qed
qed


text \<open>
  C6 (amended): a call of \<open>explain\<close> that raises, whatever it raises and wherever (a
  rejection by the validation gate, a failed resolution, a failed or interrupted
  generation, a failed retry), leaves the cache as it was. A call that returns a result
  leaves the cache as it was or has written exactly one entry: the result it returns, under
  the key of the provider and model that produced it. When the generation of the resolved
  provider raises, nothing is written under that provider's key, the digest being free of
  collisions; the cache changes in that case only if the retry succeeds.
\<close>

theorem C6_cache_written_after_success:
  "(\<forall>e. fst (explain self w st code pn af cb vi) = Inl e \<longrightarrow>
        cache (snd (explain self w st code pn af cb vi)) = cache st)
   \<and> (\<forall>r. fst (explain self w st code pn af cb vi) = Inr r \<longrightarrow>
        cache (snd (explain self w st code pn af cb vi)) = cache st
        \<or> (\<exists>t. cache (snd (explain self w st code pn af cb vi)) = (cache st)
               (get_cache_key (sha256_hexdigest w) code (model_provider (metrics r))
                  (model (metrics r)) \<mapsto> (r, Some t))))
   \<and> (\<forall>p e m st1. inj (sha256_hexdigest w)
          \<and> explain_attempt self w st code pn af cb vi = (GenerationFailed p e m, st1) \<longrightarrow>
        cache (snd (explain self w st code pn af cb vi))
          (get_cache_key (sha256_hexdigest w) code (name p) (model_of p))
        = cache st (get_cache_key (sha256_hexdigest w) code (name p) (model_of p)))
   \<and> (\<forall>e st1. validation_gate self w st code vi = (Some e, st1) \<longrightarrow>
        explain self w st code pn af cb vi = (Inl e, st1) \<and> cache st1 = cache st)"
proof -
  have "\<forall>e st1. validation_gate self w st code vi = (Some e, st1) \<longrightarrow>
        explain self w st code pn af cb vi = (Inl e, st1) \<and> cache st1 = cache st"
  proof (intro allI impI)
    fix e st1
    assume g: "validation_gate self w st code vi = (Some e, st1)"
    then have "explain_attempt self w st code pn af cb vi = (Raised e, st1)"
      by (simp add: explain_attempt_def)
    then have "explain self w st code pn af cb vi = (Inl e, st1)" by (rule explain_raised)
    moreover from validation_gate_unchanged [OF g] have "cache st1 = cache st"
      by (simp add: unchanged_def)
    ultimately show "explain self w st code pn af cb vi = (Inl e, st1) \<and> cache st1 = cache st"
      by simp
  qed
  with explain_cache [of self w st code pn af cb vi] show ?thesis by blast
qed

theorem C6_cache_written_after_success_witness:
  "cache (snd (explain explainer0 world_both_down state0 ''print(12345678)'' None True False
                 False)) = cache state0
   \<and> explain explainer0 world_rejecting state0 ''print(12345678)'' None True False True
       = (Inl (ValueError ''Input validation failed: not code''),
          snd (validation_gate explainer0 world_rejecting state0 ''print(12345678)'' True))
   \<and> cache (snd (validation_gate explainer0 world_rejecting state0 ''print(12345678)'' True))
       = cache state0
   \<and> cache (snd (explain explainer0 world_gemini_down state0 ''print(12345678)'' None True
                     False False)) (get_cache_key id ''print(12345678)'' ''gemini''
                                      ''gemini-2.5-flash'')
       = None"
proof -
  have 1: "fst (explain explainer0 world_both_down state0 ''print(12345678)'' None True False
                  False)
      = Inl (ProviderError ''Cannot connect to Ollama server. Is it running? Try: ollama serve'')"
    by (simp add: explain.simps explain_defs stream_defs run_defs world_defs string_defs)
  have 2: "validation_gate explainer0 world_rejecting state0 ''print(12345678)'' True
      = (Some (ValueError ''Input validation failed: not code''),
         snd (validation_gate explainer0 world_rejecting state0 ''print(12345678)'' True))"
    by (simp add: explain_defs stream_defs run_defs world_defs string_defs)
  have 3: "inj (sha256_hexdigest world_gemini_down)"
    by (simp add: world_defs run_defs)
  have 4: "explain_attempt explainer0 world_gemini_down state0 ''print(12345678)'' None True
             False False
           = (GenerationFailed (GeminiProvider (gemini explainer0))
                (ProviderError ''Gemini API error: 503 service unavailable'')
                \<lparr>model = ''gemini-2.5-flash'', model_provider = ''gemini'', start_time = 2,
                 end_time = Some 3, time_to_first_token = None, total_tokens = None,
                 error = Some ''Gemini API error: 503 service unavailable'',
                 cache_hit = False\<rparr>,
              snd (explain_attempt explainer0 world_gemini_down state0 ''print(12345678)'' None
                     True False False))"
    by (simp add: explain_defs stream_defs run_defs world_defs string_defs)
  note a = C6_cache_written_after_success [of explainer0 world_both_down state0
      "''print(12345678)''" None True False False]
  note b = C6_cache_written_after_success [of explainer0 world_rejecting state0
      "''print(12345678)''" None True False True]
  note c = C6_cache_written_after_success [of explainer0 world_gemini_down state0
      "''print(12345678)''" None True False False]
  from a 1 have A: "cache (snd (explain explainer0 world_both_down state0 ''print(12345678)''
      None True False False)) = cache state0"
    by blast
  from b 2 have B: "explain explainer0 world_rejecting state0 ''print(12345678)'' None True
      False True
       = (Inl (ValueError ''Input validation failed: not code''),
          snd (validation_gate explainer0 world_rejecting state0 ''print(12345678)'' True))
      \<and> cache (snd (validation_gate explainer0 world_rejecting state0 ''print(12345678)'' True))
       = cache state0"
    by blast
  from c 3 4 have "cache (snd (explain explainer0 world_gemini_down state0 ''print(12345678)''
        None True False False))
          (get_cache_key (sha256_hexdigest world_gemini_down) ''print(12345678)''
             (name (GeminiProvider (gemini explainer0)))
             (model_of (GeminiProvider (gemini explainer0))))
        = cache state0 (get_cache_key (sha256_hexdigest world_gemini_down) ''print(12345678)''
             (name (GeminiProvider (gemini explainer0)))
             (model_of (GeminiProvider (gemini explainer0))))"
    by blast
  then have C: "cache (snd (explain explainer0 world_gemini_down state0 ''print(12345678)''
        None True False False))
          (get_cache_key id ''print(12345678)'' ''gemini'' ''gemini-2.5-flash'') = None"
    by (simp add: world_defs run_defs model_of_def)
  from A B C show ?thesis by simp
qed

text \<open>
  C6, as the specification states it, fails: Gemini's generation raises, the retry on
  Ollama succeeds, and the call has written Ollama's result to the cache, which was empty.
\<close>

theorem C6_cache_written_after_success_counterexample:
  "generation_error (fst (explain_attempt explainer0 world_gemini_down state0
       ''print(12345678)'' None True False False))
     = Some (ProviderError ''Gemini API error: 503 service unavailable'')
   \<and> cache state0 (get_cache_key id ''print(12345678)'' ''ollama'' ''llama3.2:1b'') = None
   \<and> cache (snd (explain explainer0 world_gemini_down state0 ''print(12345678)'' None True
                     False False))
         (get_cache_key id ''print(12345678)'' ''ollama'' ''llama3.2:1b'') \<noteq> None"
  by (simp add: explain.simps explain_defs stream_defs run_defs world_defs string_defs)

section \<open>The cache hit\<close>

text \<open>
  What \<open>explain\<close> does from the cache probe on when the key is present and unexpired: the
  cached result is returned with \<open>cache_hit\<close> set and the probe window as its start and end
  time, the callback, when supplied, is called once with the whole cached explanation, and
  nothing else happens: the trace gains no other event and the cache is as it was.
\<close>

lemma explain_on_hit:
  assumes gate: "validation_gate self w st code validate_input = (None, st1)"
    and res: "resolve_provider self w provider_name auto_fallback = Inr p"
    and on: "use_cache self"
    and start: "time_time w st1 = (cache_start, st2)"
    and hit: "cache_get w st2 (get_cache_key (sha256_hexdigest w) code (name p) (model_of p))
                = (Some cached_result, st3)"
    and stop: "time_time w st3 = (t_end, st4)"
  shows "explain self w st code provider_name auto_fallback stream_callback validate_input
           = (Inr (cached_result\<lparr>metrics := (metrics cached_result)
                     \<lparr>start_time := cache_start, end_time := Some t_end,
                      cache_hit := True\<rparr>\<rparr>),
              st4\<lparr>trace := trace st1
                     @ (if stream_callback then [SinkCall (explanation cached_result)]
                        else [])\<rparr>)
         \<and> cache st4 = cache st"
proof -
  from start stop hit have t: "trace st4 = trace st1" "cache st4 = cache st1"
    by (auto simp: time_time_def cache_get_def split: option.splits if_splits)
  from validation_gate_unchanged [OF gate] have c: "cache st1 = cache st"
    by (simp add: unchanged_def)
  from assms t have "explain_attempt self w st code provider_name auto_fallback stream_callback
      validate_input
           = (Returned (cached_result\<lparr>metrics := (metrics cached_result)
                     \<lparr>start_time := cache_start, end_time := Some t_end,
                      cache_hit := True\<rparr>\<rparr>),
              st4\<lparr>trace := trace st1
                     @ (if stream_callback then [SinkCall (explanation cached_result)]
                        else [])\<rparr>)"
    by (simp add: explain_attempt_def cache_lookup_def emit_def)
  from explain_returned [OF this] t c show ?thesis by simp
qed

text \<open>
  C2: the code does not do what the claim says. The validation gate stands before the
  cache probe: with the key present and unexpired in the cache and \<open>validate_input\<close> on
  (the default), the call is a cache hit and yet the validator has been called first; and
  when the validator rejects the input, \<open>explain\<close> raises although the result is cached.
\<close>

theorem C2_validator_runs_before_cache_hit:
  "fst (cache_get world0 state_cached
          (get_cache_key (sha256_hexdigest world0) ''print(12345678)'' ''gemini''
             ''gemini-2.5-flash'')) = Some cached0
   \<and> fst (explain explainer0 world0 state_cached ''print(12345678)'' None True True True)
       = Inr (cached0\<lparr>metrics := (metrics cached0)
                \<lparr>start_time := 10, end_time := Some 12, cache_hit := True\<rparr>\<rparr>)
   \<and> trace (snd (explain explainer0 world0 state_cached ''print(12345678)'' None True True
                     True))
       = [StructuredCall ''ollama''
            (get_validation_prompt (code_sample (settings world0) ''print(12345678)'')),
          SinkCall ''It prints a number.'']
   \<and> structured_calls (trace (snd (explain explainer0 world0 state_cached ''print(12345678)''
                                       None True True True))) = 1
   \<and> fst (explain explainer0 world_rejecting state_cached ''print(12345678)'' None True True
             True)
       = Inl (ValueError ''Input validation failed: not code'')"
  by (simp add: explain.simps explain_defs stream_defs run_defs world_defs string_defs)

end
